theory Spec2Isabelle
  imports Complex_Main
begin

section \<open>JavaScript values\<close>

text \<open>
  A string of the program is the list of its UTF-16 code units; \<open>lit\<close> gives the code
  units of a literal of the source, all of them ASCII.
\<close>

type_synonym jsstring = "int list"

definition lit :: "string \<Rightarrow> jsstring" where
  "lit s = map of_char s"

text \<open>
  The store of \<^verbatim>\<open>src/renderer/stores/documentsStore.ts\<close> holds filter values,
  row keys, ranking expressions and backend filters as untyped JSON-like data (\<^verbatim>\<open>any\<close>).
  They are modelled by one datatype. Numbers are rationals: the only tests the code
  makes on them are equality with 0 and 1 and \<^verbatim>\<open>Number.isInteger\<close>. An array
  literal such as \<^verbatim>\<open>["status", "Eq", v]\<close> is
  \<open>VArr [VStr (lit ''status''), VStr (lit ''Eq''), v]\<close>.
\<close>

datatype jsvalue =
    VUndefined
  | VNull
  | VBool bool
  | VNum rat
  | VStr jsstring
  | VArr "jsvalue list"
  | VObj "(jsstring \<times> jsvalue) list"

text \<open>JavaScript truthiness, as \<^verbatim>\<open>x || y\<close>, \<^verbatim>\<open>x && y\<close> and \<^verbatim>\<open>!x\<close> read it.\<close>

fun truthy :: "jsvalue \<Rightarrow> bool" where
  "truthy VUndefined = False"
| "truthy VNull = False"
| "truthy (VBool b) = b"
| "truthy (VNum n) = (n \<noteq> 0)"
| "truthy (VStr s) = (s \<noteq> [])"
| "truthy (VArr xs) = True"
| "truthy (VObj kvs) = True"

text \<open>\<^verbatim>\<open>Array.isArray(v) ? v[0] : v\<close>; reading index 0 of an empty array gives
  \<^verbatim>\<open>undefined\<close>.\<close>

fun firstIfArray :: "jsvalue \<Rightarrow> jsvalue" where
  "firstIfArray (VArr []) = VUndefined"
| "firstIfArray (VArr (x # xs)) = x"
| "firstIfArray v = v"

text \<open>\<^verbatim>\<open>Array.isArray(v) ? v : [v]\<close>\<close>

fun asArray :: "jsvalue \<Rightarrow> jsvalue" where
  "asArray (VArr xs) = VArr xs"
| "asArray v = VArr [v]"

fun isArray :: "jsvalue \<Rightarrow> bool" where
  "isArray (VArr xs) = True"
| "isArray v = False"

text \<open>A string-or-null field used as a condition: \<^verbatim>\<open>null\<close> and the empty string
  are falsy.\<close>

fun truthyStr :: "jsstring option \<Rightarrow> bool" where
  "truthyStr None = False"
| "truthyStr (Some s) = (s \<noteq> [])"

text \<open>\<^verbatim>\<open>x || d\<close> on a string-or-null field.\<close>

definition orElse :: "jsstring option \<Rightarrow> jsstring \<Rightarrow> jsstring" where
  "orElse x d = (case x of None \<Rightarrow> d | Some s \<Rightarrow> (if s = [] then d else s))"

subsection \<open>Strings\<close>

text \<open>
  \<^verbatim>\<open>String.prototype.trim\<close> strips the white space and the line terminators of
  ECMAScript from both ends: U+0009 to U+000D, U+0020, U+00A0, U+1680, U+2000 to U+200A,
  U+2028, U+2029, U+202F, U+205F, U+3000 and U+FEFF.
\<close>

definition isWhiteSpace :: "int \<Rightarrow> bool" where
  "isWhiteSpace c =
     ((9 \<le> c \<and> c \<le> 13) \<or> c = 32 \<or> c = 160 \<or> c = 5760 \<or> (8192 \<le> c \<and> c \<le> 8202)
      \<or> c = 8232 \<or> c = 8233 \<or> c = 8239 \<or> c = 8287 \<or> c = 12288 \<or> c = 65279)"

definition trim :: "jsstring \<Rightarrow> jsstring" where
  "trim s = rev (dropWhile isWhiteSpace (rev (dropWhile isWhiteSpace s)))"

text \<open>\<^verbatim>\<open>s.split(",")\<close>; the comma is the code unit 44.\<close>

fun splitComma :: "jsstring \<Rightarrow> jsstring list" where
  "splitComma [] = [[]]"
| "splitComma (c # cs) =
     (if c = 44 then [] # splitComma cs
      else (case splitComma cs of [] \<Rightarrow> [[c]] | w # ws \<Rightarrow> (c # w) # ws))"

text \<open>Decimal rendering of an integer inside a template literal; the digits are the code
  units 48 to 57 and the minus sign is 45.\<close>

fun showNat :: "nat \<Rightarrow> jsstring" where
  "showNat n = (if n < 10 then [48 + int n]
                else showNat (n div 10) @ [48 + int (n mod 10)])"

declare showNat.simps [simp del]

definition showInt :: "int \<Rightarrow> jsstring" where
  "showInt i = (if i < 0 then 45 # showNat (nat (- i)) else showNat (nat i))"

text \<open>\<^verbatim>\<open>xs.join(sep)\<close> on strings.\<close>

fun joinWith :: "jsstring \<Rightarrow> jsstring list \<Rightarrow> jsstring" where
  "joinWith sep [] = []"
| "joinWith sep [x] = x"
| "joinWith sep (x # y # ys) = x @ sep @ joinWith sep (y # ys)"

text \<open>\<^verbatim>\<open>xs[i] = v\<close> on a JavaScript array: a write past the end extends the array
  with holes (read back as \<^verbatim>\<open>undefined\<close>); a negative index sets a property and
  leaves the elements alone.\<close>

definition jsArraySet :: "jsvalue list \<Rightarrow> int \<Rightarrow> jsvalue \<Rightarrow> jsvalue list" where
  "jsArraySet xs i v =
     (if i < 0 then xs
      else if nat i < length xs then xs[nat i := v]
      else xs @ replicate (nat i - length xs) VUndefined @ [v])"

section \<open>External collaborators\<close>

text \<open>
  What the store imports from modules that are not part of the sources
  (\<^verbatim>\<open>../utils/filterTypeConversion\<close>, \<^verbatim>\<open>documentService\<close>) and the language
  built-ins whose result depends on the JavaScript engine and its Unicode tables are
  parameters of the model.
\<close>

record env =
  isArrayType :: "jsstring option \<Rightarrow> bool"
    \<comment> \<open>\<^verbatim>\<open>isArrayType(fieldType)\<close>; the argument is \<^verbatim>\<open>undefined\<close> for an unknown attribute\<close>
  parseValueForFieldType :: "jsstring \<Rightarrow> jsstring option \<Rightarrow> jsvalue"
  jsString :: "jsvalue \<Rightarrow> jsstring"
    \<comment> \<open>\<^verbatim>\<open>String(v)\<close> of a value that is not a string\<close>
  jsonStringify :: "jsvalue \<Rightarrow> jsstring"
  toLowerCase :: "jsstring \<Rightarrow> jsstring"
    \<comment> \<open>\<^verbatim>\<open>String.prototype.toLowerCase\<close>\<close>
  isDateString :: "jsstring \<Rightarrow> bool"
    \<comment> \<open>\<^verbatim>\<open>/^\d{4}-\d{2}-\d{2}/.test(v) || !isNaN(Date.parse(v))\<close>\<close>
  clientAvailable :: bool
    \<comment> \<open>\<^verbatim>\<open>documentService.getClient()\<close> is set\<close>
  typeErrorMessage :: jsstring
    \<comment> \<open>the message of the \<^verbatim>\<open>TypeError\<close> for reading a property of \<^verbatim>\<open>null\<close>\<close>
  notExtensibleMessage :: jsstring
    \<comment> \<open>the message of the \<^verbatim>\<open>TypeError\<close> for adding a property to a frozen object\<close>

definition toStr :: "env \<Rightarrow> jsvalue \<Rightarrow> jsstring" where
  "toStr E v = (case v of VStr s \<Rightarrow> s | _ \<Rightarrow> jsString E v)"

section \<open>Data model\<close>

datatype FilterOperator =
    OpEquals | OpNotEquals
  | OpContains
  | OpGreater | OpGreaterOrEqual | OpLess | OpLessOrEqual
  | OpIn | OpNotIn
  | OpMatches | OpNotMatches | OpIMatches | OpNotIMatches
  | OpAnyLt | OpAnyLte | OpAnyGt | OpAnyGte
  | OpArrayContains | OpNotArrayContains
  | OpContainsAny | OpNotContainsAny
  | OpRegex
  | OpContainsAllTokens | OpContainsTokenSequence

fun operatorName :: "FilterOperator \<Rightarrow> jsstring" where
  "operatorName OpEquals = (lit ''equals'')"
| "operatorName OpNotEquals = (lit ''not_equals'')"
| "operatorName OpContains = (lit ''contains'')"
| "operatorName OpGreater = (lit ''greater'')"
| "operatorName OpGreaterOrEqual = (lit ''greater_or_equal'')"
| "operatorName OpLess = (lit ''less'')"
| "operatorName OpLessOrEqual = (lit ''less_or_equal'')"
| "operatorName OpIn = (lit ''in'')"
| "operatorName OpNotIn = (lit ''not_in'')"
| "operatorName OpMatches = (lit ''matches'')"
| "operatorName OpNotMatches = (lit ''not_matches'')"
| "operatorName OpIMatches = (lit ''imatches'')"
| "operatorName OpNotIMatches = (lit ''not_imatches'')"
| "operatorName OpAnyLt = (lit ''any_lt'')"
| "operatorName OpAnyLte = (lit ''any_lte'')"
| "operatorName OpAnyGt = (lit ''any_gt'')"
| "operatorName OpAnyGte = (lit ''any_gte'')"
| "operatorName OpArrayContains = (lit ''array_contains'')"
| "operatorName OpNotArrayContains = (lit ''not_array_contains'')"
| "operatorName OpContainsAny = (lit ''contains_any'')"
| "operatorName OpNotContainsAny = (lit ''not_contains_any'')"
| "operatorName OpRegex = (lit ''regex'')"
| "operatorName OpContainsAllTokens = (lit ''contains_all_tokens'')"
| "operatorName OpContainsTokenSequence = (lit ''contains_token_sequence'')"

record SimpleFilter =
  fid :: jsstring
  attribute :: jsstring
  operator :: FilterOperator
  fvalue :: jsvalue
  displayValue :: jsstring

text \<open>Of a \<^verbatim>\<open>DiscoveredAttribute\<close> the store reads the name and the type only.\<close>

record DiscoveredAttribute =
  name :: jsstring
  atype :: jsstring

text \<open>A row: its key, its \<^verbatim>\<open>attributes\<close> property when it has one, and its other
  own properties in enumeration order.\<close>

record Document =
  doc_id :: jsvalue
  doc_attributes :: "(jsstring \<times> jsvalue) list option"
  doc_fields :: "(jsstring \<times> jsvalue) list"

record bm25Field =
  field :: jsstring
  weight :: rat

datatype bm25OperatorT = BSum | BMax | BProduct

datatype queryModeT = Browse | BM25 | Vector

datatype rankingModeT = Simple | Expression

datatype sortDirectionT = Asc | Desc

text \<open>A node of the ranking expression builder; \<open>NullNode\<close> is \<^verbatim>\<open>null\<close>.\<close>

datatype RankingExprNode =
    NullNode
  | ExprNode jsstring jsvalue jsvalue jsvalue "RankingExprNode list option"
    \<comment> \<open>type, attribute, constant, operator, operands\<close>

text \<open>An entry of the aggregations panel: its name and its other settings
  (function, target field).\<close>

record AggregationConfig =
  agg_name :: jsstring
  agg_settings :: "(jsstring \<times> jsvalue) list"

record cacheEntry =
  c_documents :: "Document list"
  c_totalCount :: jsvalue
  c_timestamp :: int

text \<open>The backend query and its answer (\<^verbatim>\<open>documentService.queryDocuments\<close>). A field
  that is absent or \<^verbatim>\<open>undefined\<close> is \<open>None\<close>.\<close>

record request =
  filters :: "jsvalue option"
  rank_by :: "jsvalue option"
  top_k :: "int option"
  include_attributes :: "bool option"
  aggregate_by :: "(jsstring \<times> jsstring list) list option"
  group_by :: "jsstring list option"

record response =
  rows :: "Document list option"
  aggregations_of :: "(jsstring \<times> jsvalue) list option"
  aggregation_groups :: "jsvalue option"

text \<open>What a rejected call throws: an \<^verbatim>\<open>Error\<close> with its message, or anything else.\<close>

datatype thrown = ErrorInstance jsstring | NonError

text \<open>
  The fields of \<^verbatim>\<open>DocumentsState\<close> that the query path reads or writes. The selection,
  the visible columns, the display options, the filter history, the attribute cache,
  the initialisation counters, \<^verbatim>\<open>totalPages\<close> and \<^verbatim>\<open>lastQueryResult\<close> are
  written but never read by the functions below and are left out.
\<close>

record DocumentsState =
  documents :: "Document list"
  totalCount :: jsvalue
  unfilteredTotalCount :: jsvalue
  attributes :: "DiscoveredAttribute list"
  nextCursor :: jsvalue
  previousCursors :: "jsvalue list"
  currentPage :: int
  pageSize :: int
  currentConnectionId :: "jsstring option"
  isLoading :: bool
  error :: "jsstring option"
  isClientInitialized :: bool
  currentNamespaceId :: "jsstring option"
  searchText :: jsstring
  activeFilters :: "SimpleFilter list"
  isQueryMode :: bool
  sortAttribute :: "jsstring option"
  sortDirection :: sortDirectionT
  queryMode :: queryModeT
  searchField :: "jsstring option"
  vectorQuery :: "rat list option"
  vectorField :: "jsstring option"
  bm25Fields :: "bm25Field list"
  bm25Operator :: bm25OperatorT
  rankingMode :: rankingModeT
  rankingExpression :: RankingExprNode
  aggregations :: "AggregationConfig list"
  aggregationResults :: "(jsstring \<times> (jsvalue \<times> jsvalue) list) list option"
  groupByAttributes :: "jsstring list"
  aggregationGroups :: "jsvalue option"
  isGroupedQuery :: bool
  documentsCache :: "(jsstring \<times> cacheEntry) list"

section \<open>Query compilation\<close>

subsection \<open>Predicates\<close>

text \<open>\<^verbatim>\<open>state.attributes.find(attr => attr.name === filter.attribute)?.type\<close>\<close>

definition fieldTypeOf :: "DiscoveredAttribute list \<Rightarrow> jsstring \<Rightarrow> jsstring option" where
  "fieldTypeOf attrs a = map_option atype (find (\<lambda>attr. name attr = a) attrs)"

text \<open>The \<^verbatim>\<open>switch (filter.operator)\<close> of \<^verbatim>\<open>loadDocuments\<close>: every case pushes one
  backend filter.\<close>

definition compileFilter :: "env \<Rightarrow> DiscoveredAttribute list \<Rightarrow> SimpleFilter \<Rightarrow> jsvalue" where
  "compileFilter E attrs f =
     (let a = VStr (attribute f); v = fvalue f;
          isArrayField = isArrayType E (fieldTypeOf attrs (attribute f))
      in case operator f of
           OpEquals \<Rightarrow>
             (if isArrayField then VArr [a, VStr (lit ''ContainsAny''), firstIfArray v]
              else VArr [a, VStr (lit ''Eq''), v])
         | OpNotEquals \<Rightarrow>
             (if isArrayField
              then VArr [VStr (lit ''Not''), VArr [a, VStr (lit ''ContainsAny''), firstIfArray v]]
              else VArr [a, VStr (lit ''NotEq''), v])
         | OpContains \<Rightarrow>
             (if isArrayField then VArr [a, VStr (lit ''ContainsAny''), firstIfArray v]
              else VArr [a, VStr (lit ''Glob''), VStr ((lit ''*'') @ toStr E v @ (lit ''*''))])
         | OpGreater \<Rightarrow> VArr [a, VStr (lit ''Gt''), v]
         | OpGreaterOrEqual \<Rightarrow> VArr [a, VStr (lit ''Gte''), v]
         | OpLess \<Rightarrow> VArr [a, VStr (lit ''Lt''), v]
         | OpLessOrEqual \<Rightarrow> VArr [a, VStr (lit ''Lte''), v]
         | OpIn \<Rightarrow> VArr [a, VStr (lit ''In''), asArray v]
         | OpNotIn \<Rightarrow> VArr [a, VStr (lit ''NotIn''), asArray v]
         | OpMatches \<Rightarrow> VArr [a, VStr (lit ''Glob''), v]
         | OpNotMatches \<Rightarrow> VArr [a, VStr (lit ''NotGlob''), v]
         | OpIMatches \<Rightarrow> VArr [a, VStr (lit ''IGlob''), v]
         | OpNotIMatches \<Rightarrow> VArr [a, VStr (lit ''NotIGlob''), v]
         | OpAnyLt \<Rightarrow> VArr [a, VStr (lit ''AnyLt''), v]
         | OpAnyLte \<Rightarrow> VArr [a, VStr (lit ''AnyLte''), v]
         | OpAnyGt \<Rightarrow> VArr [a, VStr (lit ''AnyGt''), v]
         | OpAnyGte \<Rightarrow> VArr [a, VStr (lit ''AnyGte''), v]
         | OpArrayContains \<Rightarrow> VArr [a, VStr (lit ''Contains''), firstIfArray v]
         | OpNotArrayContains \<Rightarrow> VArr [a, VStr (lit ''NotContains''), firstIfArray v]
         | OpContainsAny \<Rightarrow> VArr [a, VStr (lit ''ContainsAny''), asArray v]
         | OpNotContainsAny \<Rightarrow> VArr [a, VStr (lit ''NotContainsAny''), asArray v]
         | OpRegex \<Rightarrow> VArr [a, VStr (lit ''Regex''), v]
         | OpContainsAllTokens \<Rightarrow> VArr [a, VStr (lit ''ContainsAllTokens''), v]
         | OpContainsTokenSequence \<Rightarrow> VArr [a, VStr (lit ''ContainsTokenSequence''), v])"

text \<open>\<^verbatim>\<open>shouldUseQueryMode\<close>\<close>

definition shouldUseQueryMode :: "DocumentsState \<Rightarrow> bool" where
  "shouldUseQueryMode s = (length (activeFilters s) > 0 \<or> length (trim (searchText s)) > 0)"

text \<open>The list \<^verbatim>\<open>filters\<close>: the identifier glob of browse mode first, then one entry
  for each active predicate.\<close>

definition buildFilters :: "env \<Rightarrow> DocumentsState \<Rightarrow> jsvalue list" where
  "buildFilters E s =
     (if trim (searchText s) \<noteq> [] \<and> queryMode s = Browse
      then [VArr [VStr (lit ''id''), VStr (lit ''Glob''), VStr ((lit ''*'') @ trim (searchText s) @ (lit ''*''))]]
      else [])
     @ map (compileFilter E (attributes s)) (activeFilters s)"

text \<open>\<^verbatim>\<open>combinedFilter\<close>\<close>

definition combineFilters :: "jsvalue list \<Rightarrow> jsvalue option" where
  "combineFilters fs =
     (if length fs = 0 then None
      else if length fs = 1 then Some (fs ! 0)
      else Some (VArr [VStr (lit ''And''), VArr fs]))"

subsection \<open>Cursor injection\<close>

text \<open>
  The cursor filter is added to \<open>base\<close>, the combined filter of query mode or
  \<^verbatim>\<open>undefined\<close> in browse mode; the two branches of \<^verbatim>\<open>loadDocuments\<close> carry the same
  chain of conditions. The snapshot \<open>s\<close> is the state read at the start of the load.
\<close>

definition andCursor :: "jsvalue option \<Rightarrow> jsvalue \<Rightarrow> jsvalue option" where
  "andCursor base cursor =
     (let cursorFilter = VArr [VStr (lit ''id''), VStr (lit ''Gt''), cursor]
      in case base of
           None \<Rightarrow> Some cursorFilter
         | Some c \<Rightarrow> Some (VArr [VStr (lit ''And''), VArr [c, cursorFilter]]))"

definition withCursor :: "DocumentsState \<Rightarrow> int \<Rightarrow> jsvalue option \<Rightarrow> jsvalue option" where
  "withCursor s page base =
     (if page > currentPage s \<and> length (documents s) > 0
      then andCursor base (doc_id (last (documents s)))
      else if page < currentPage s \<and> length (previousCursors s) > 0
      then (let cursorIndex = page - 2
            in if cursorIndex \<ge> 0 \<and> cursorIndex < int (length (previousCursors s))
               then andCursor base (previousCursors s ! nat cursorIndex)
               else if page = 1 then base
               else base)
      else if page = 1 \<or> currentPage s = 0 then base
      else base)"

subsection \<open>Ranking\<close>

fun convertRankingExprToTurbopuffer :: "RankingExprNode \<Rightarrow> jsvalue" where
  "convertRankingExprToTurbopuffer NullNode = VNull"
| "convertRankingExprToTurbopuffer (ExprNode t a c oper opnds) =
     (if t = (lit ''attribute'') then a
      else if t = (lit ''constant'') then c
      else if t = (lit ''operator'') \<and> truthy oper then
        (case opnds of
           None \<Rightarrow> VNull
         | Some ns \<Rightarrow> VArr (oper # map convertRankingExprToTurbopuffer ns))
      else VNull)"

text \<open>\<^verbatim>\<open>op.charAt(0).toUpperCase() + op.slice(1)\<close> on the three operator names.\<close>

fun bm25OperatorName :: "bm25OperatorT \<Rightarrow> jsstring" where
  "bm25OperatorName BSum = (lit ''Sum'')"
| "bm25OperatorName BMax = (lit ''Max'')"
| "bm25OperatorName BProduct = (lit ''Product'')"

fun sortDirectionName :: "sortDirectionT \<Rightarrow> jsstring" where
  "sortDirectionName Asc = (lit ''asc'')"
| "sortDirectionName Desc = (lit ''desc'')"

definition bm25Rank :: "jsstring \<Rightarrow> jsstring \<Rightarrow> jsvalue" where
  "bm25Rank fld txt = VArr [VStr fld, VStr (lit ''BM25''), VStr txt]"

definition fieldRank :: "jsstring \<Rightarrow> bm25Field \<Rightarrow> jsvalue" where
  "fieldRank txt f =
     (if weight f \<noteq> 1 then VArr [VStr (lit ''Product''), VArr [VNum (weight f), bm25Rank (field f) txt]]
      else bm25Rank (field f) txt)"

definition potentialBM25Fields :: "env \<Rightarrow> DiscoveredAttribute list \<Rightarrow> jsstring list" where
  "potentialBM25Fields E attrs =
     map name
       (filter (\<lambda>attr. toLowerCase E (name attr) \<notin>
                   set [(lit ''id''), (lit ''uuid''), (lit ''key''), (lit ''created_at''), (lit ''updated_at'')])
          (filter (\<lambda>attr. atype attr = (lit ''string'') \<or> atype attr = (lit ''[]string'')) attrs))"

text \<open>\<^verbatim>\<open>state.vectorQuery && state.vectorQuery.length > 0\<close>, and the vector itself.\<close>

fun vectorPresent :: "rat list option \<Rightarrow> bool" where
  "vectorPresent None = False"
| "vectorPresent (Some v) = (length v > 0)"

fun vectorValues :: "rat list option \<Rightarrow> rat list" where
  "vectorValues None = []"
| "vectorValues (Some v) = v"

text \<open>The choice of \<^verbatim>\<open>rankBy\<close> in query mode; \<open>None\<close> is the early return with the
  error that no text field is available.\<close>

definition determineRankBy :: "env \<Rightarrow> DocumentsState \<Rightarrow> jsvalue option" where
  "determineRankBy E s =
     (if rankingMode s = Expression \<and> rankingExpression s \<noteq> NullNode
      then Some (convertRankingExprToTurbopuffer (rankingExpression s))
      else if queryMode s = BM25 \<and> trim (searchText s) \<noteq> []
      then (if length (bm25Fields s) > 1
            then Some (VArr [VStr (bm25OperatorName (bm25Operator s)),
                             VArr (map (fieldRank (trim (searchText s))) (bm25Fields s))])
            else if length (bm25Fields s) = 1
            then Some (bm25Rank (field (bm25Fields s ! 0)) (trim (searchText s)))
            else (case potentialBM25Fields E (attributes s) of
                    [] \<Rightarrow> None
                  | f # fs \<Rightarrow> Some (bm25Rank f (trim (searchText s)))))
      else if queryMode s = Vector \<and> vectorPresent (vectorQuery s)
      then Some (VArr [VStr (orElse (vectorField s) (lit ''vector'')), VStr (lit ''ANN''),
                       VArr (map VNum (vectorValues (vectorQuery s)))])
      else Some (VArr [VStr (orElse (sortAttribute s) (lit ''id'')),
                       VStr (sortDirectionName (sortDirection s))]))"

definition noTextFieldsMessage :: jsstring where
  "noTextFieldsMessage = (lit ''No text fields available for full-text search. Please select fields in the BM25 configuration or check your schema has full_text_search enabled.'')"

subsection \<open>The requests\<close>

definition emptyRequest :: request where
  "emptyRequest = \<lparr> filters = None, rank_by = None, top_k = None, include_attributes = None,
                     aggregate_by = None, group_by = None \<rparr>"

text \<open>The count sub-query.\<close>

definition countRequest :: "jsvalue option \<Rightarrow> request" where
  "countRequest flt = emptyRequest \<lparr> filters := flt,
                                     aggregate_by := Some [((lit ''count''), [(lit ''Count''), (lit ''id'')])] \<rparr>"

text \<open>A property whose value is \<^verbatim>\<open>undefined\<close> is as absent.\<close>

definition defined :: "jsvalue \<Rightarrow> jsvalue option" where
  "defined v = (if v = VUndefined then None else Some v)"

text \<open>The paginated query of query mode.\<close>

definition queryRequest :: "DocumentsState \<Rightarrow> int \<Rightarrow> jsvalue option \<Rightarrow> jsvalue \<Rightarrow> request" where
  "queryRequest s limit finalFilter rankBy =
     (let hasAggregations = length (aggregations s) > 0
      in if hasAggregations
         then emptyRequest \<lparr> filters := finalFilter, top_k := Some limit,
                aggregate_by := Some [(agg_name (aggregations s ! 0), [(lit ''Count'')])],
                group_by := (if length (groupByAttributes s) > 0
                             then Some (groupByAttributes s) else None) \<rparr>
         else emptyRequest \<lparr> filters := finalFilter, top_k := Some limit,
                include_attributes := Some True, rank_by := defined rankBy \<rparr>)"

text \<open>The paginated query of browse mode.\<close>

definition browseRequest :: "int \<Rightarrow> jsvalue option \<Rightarrow> request" where
  "browseRequest limit paginationFilter =
     emptyRequest \<lparr> filters := paginationFilter,
                     rank_by := Some (VArr [VStr (lit ''id''), VStr (lit ''asc'')]),
                     top_k := Some limit, include_attributes := Some True \<rparr>"

section \<open>Mutators of the query configuration\<close>

text \<open>Each mutator is the state update of its \<^verbatim>\<open>set\<close> call; the loads and history
  writes that some of them schedule with \<^verbatim>\<open>setTimeout\<close> run later, as separate steps.\<close>

definition setSearchText :: "jsstring \<Rightarrow> DocumentsState \<Rightarrow> DocumentsState" where
  "setSearchText txt s =
     s \<lparr> searchText := txt,
         isQueryMode := (length txt > 0 \<or> length (activeFilters s) > 0),
         currentPage := 1, previousCursors := [], nextCursor := VNull \<rparr>"

text \<open>The conversion of the raw input of \<^verbatim>\<open>addFilter\<close> and \<^verbatim>\<open>updateFilter\<close>.\<close>

definition typedValueOf :: "env \<Rightarrow> jsstring option \<Rightarrow> FilterOperator \<Rightarrow> jsvalue \<Rightarrow> jsvalue" where
  "typedValueOf E fieldType oper rawValue =
     (if oper = OpIn \<or> oper = OpNotIn then
        (case rawValue of
           VArr xs \<Rightarrow>
             VArr (map (\<lambda>v. case v of VStr str \<Rightarrow> parseValueForFieldType E str fieldType
                                     | _ \<Rightarrow> v) xs)
         | _ \<Rightarrow>
             VArr (map (\<lambda>v. parseValueForFieldType E v fieldType)
                     (filter (\<lambda>v. v \<noteq> []) (map trim (splitComma (toStr E rawValue))))))
      else if rawValue = VStr (lit ''null'')
              \<or> (case rawValue of VStr str \<Rightarrow> toLowerCase E str = (lit ''null'') | _ \<Rightarrow> False)
      then VNull
      else (case rawValue of
              VStr str \<Rightarrow> parseValueForFieldType E str fieldType
            | _ \<Rightarrow> rawValue))"

text \<open>An element inside \<^verbatim>\<open>Array.prototype.join\<close>: \<^verbatim>\<open>null\<close> and \<^verbatim>\<open>undefined\<close> render
  as the empty string.\<close>

definition joinElem :: "env \<Rightarrow> jsvalue \<Rightarrow> jsstring" where
  "joinElem E v = (case v of VNull \<Rightarrow> [] | VUndefined \<Rightarrow> [] | _ \<Rightarrow> toStr E v)"

definition displayValueOf :: "env \<Rightarrow> jsvalue \<Rightarrow> jsstring" where
  "displayValueOf E typedValue =
     (case typedValue of
        VNull \<Rightarrow> (lit ''null'')
      | VArr xs \<Rightarrow>
          (if length xs > 3
           then (lit ''['') @ joinWith (lit '', '') (map (joinElem E) (take 3 xs)) @ (lit '', ...]'')
           else (lit ''['') @ joinWith (lit '', '') (map (joinElem E) xs) @ (lit '']''))
      | VObj kvs \<Rightarrow> jsonStringify E typedValue
      | _ \<Rightarrow> toStr E typedValue)"

text \<open>\<open>newId\<close> is the fresh \<^verbatim>\<open>`${Date.now()}-${Math.random()}`\<close>.\<close>

definition addFilter ::
  "env \<Rightarrow> jsstring \<Rightarrow> jsstring \<Rightarrow> FilterOperator \<Rightarrow> jsvalue \<Rightarrow> DocumentsState \<Rightarrow> DocumentsState" where
  "addFilter E newId attr oper rawValue s =
     (let fieldType = fieldTypeOf (attributes s) attr;
          typedValue = typedValueOf E fieldType oper rawValue;
          newFilter = \<lparr> fid = newId, attribute = attr, operator = oper,
                        fvalue = typedValue, displayValue = displayValueOf E typedValue \<rparr>
      in s \<lparr> activeFilters := activeFilters s @ [newFilter],
             isQueryMode := True,
             currentPage := 1, previousCursors := [], nextCursor := VNull \<rparr>)"

text \<open>\<^verbatim>\<open>findIndex\<close> followed by the write at the index found: the first match is replaced.\<close>

fun updateFirst :: "('a \<Rightarrow> bool) \<Rightarrow> ('a \<Rightarrow> 'a) \<Rightarrow> 'a list \<Rightarrow> 'a list" where
  "updateFirst P g [] = []"
| "updateFirst P g (x # xs) = (if P x then g x # xs else x # updateFirst P g xs)"

definition updateFilter ::
  "env \<Rightarrow> jsstring \<Rightarrow> jsstring \<Rightarrow> FilterOperator \<Rightarrow> jsvalue \<Rightarrow> DocumentsState \<Rightarrow> DocumentsState" where
  "updateFilter E filterId attr oper rawValue s =
     (let fieldType = fieldTypeOf (attributes s) attr;
          typedValue = typedValueOf E fieldType oper rawValue;
          dv = displayValueOf E typedValue
      in s \<lparr> activeFilters :=
               updateFirst (\<lambda>f. fid f = filterId)
                 (\<lambda>f. f \<lparr> attribute := attr, operator := oper, fvalue := typedValue,
                          displayValue := dv \<rparr>)
                 (activeFilters s),
             currentPage := 1, previousCursors := [], nextCursor := VNull \<rparr>)"

definition removeFilter :: "jsstring \<Rightarrow> DocumentsState \<Rightarrow> DocumentsState" where
  "removeFilter filterId s =
     (let remaining = filter (\<lambda>f. fid f \<noteq> filterId) (activeFilters s)
      in s \<lparr> activeFilters := remaining,
             isQueryMode := (length (searchText s) > 0 \<or> length remaining > 0),
             currentPage := 1, previousCursors := [], nextCursor := VNull \<rparr>)"

definition setSortAttribute :: "jsstring option \<Rightarrow> sortDirectionT \<Rightarrow> DocumentsState \<Rightarrow> DocumentsState" where
  "setSortAttribute attr direction s =
     s \<lparr> sortAttribute := attr, sortDirection := direction,
         currentPage := 1, previousCursors := [], nextCursor := VNull \<rparr>"

definition setQueryMode :: "queryModeT \<Rightarrow> DocumentsState \<Rightarrow> DocumentsState" where
  "setQueryMode m s =
     s \<lparr> queryMode := m, currentPage := 1, previousCursors := [], nextCursor := VNull \<rparr>"

definition setSearchField :: "jsstring option \<Rightarrow> DocumentsState \<Rightarrow> DocumentsState" where
  "setSearchField fld s =
     s \<lparr> searchField := fld, currentPage := 1, previousCursors := [], nextCursor := VNull \<rparr>"

definition setVectorQuery :: "rat list option \<Rightarrow> jsstring \<Rightarrow> DocumentsState \<Rightarrow> DocumentsState" where
  "setVectorQuery vec fld s =
     s \<lparr> vectorQuery := vec, vectorField := Some fld,
         currentPage := 1, previousCursors := [], nextCursor := VNull \<rparr>"

definition setBM25Config :: "bm25Field list \<Rightarrow> bm25OperatorT \<Rightarrow> DocumentsState \<Rightarrow> DocumentsState" where
  "setBM25Config flds oper s =
     s \<lparr> bm25Fields := flds, bm25Operator := oper,
         currentPage := 1, previousCursors := [], nextCursor := VNull \<rparr>"

definition setRankingMode :: "rankingModeT \<Rightarrow> DocumentsState \<Rightarrow> DocumentsState" where
  "setRankingMode m s =
     s \<lparr> rankingMode := m, currentPage := 1, previousCursors := [], nextCursor := VNull \<rparr>"

definition setRankingExpression :: "RankingExprNode \<Rightarrow> DocumentsState \<Rightarrow> DocumentsState" where
  "setRankingExpression e s =
     s \<lparr> rankingExpression := e, currentPage := 1, previousCursors := [], nextCursor := VNull \<rparr>"

definition setAggregations :: "AggregationConfig list \<Rightarrow> DocumentsState \<Rightarrow> DocumentsState" where
  "setAggregations aggs s =
     s \<lparr> aggregations := aggs, currentPage := 1, previousCursors := [], nextCursor := VNull \<rparr>"

definition setGroupByAttributes :: "jsstring list \<Rightarrow> DocumentsState \<Rightarrow> DocumentsState" where
  "setGroupByAttributes attrs s =
     (let s' = s \<lparr> groupByAttributes := attrs, isGroupedQuery := (length attrs > 0),
                   currentPage := 1, previousCursors := [], nextCursor := VNull \<rparr>
      in if length attrs = 0 then s' \<lparr> aggregationGroups := None \<rparr> else s')"

section \<open>Attribute discovery\<close>

text \<open>\<^verbatim>\<open>Map.prototype.set\<close> on a map kept in insertion order.\<close>

fun mapSet :: "('k \<times> 'v) list \<Rightarrow> 'k \<Rightarrow> 'v \<Rightarrow> ('k \<times> 'v) list" where
  "mapSet [] k v = [(k, v)]"
| "mapSet ((k', v') # m) k v = (if k' = k then (k, v) # m else (k', v') # mapSet m k v)"

definition standardFields :: "jsstring list" where
  "standardFields = [(lit ''id''), (lit ''vector''), (lit ''$dist''), (lit ''attributes'')]"

text \<open>
  The entries that discovery reads of a row. The rows it is given are the ones held in
  the store, which are frozen: when a row has an empty \<^verbatim>\<open>attributes\<close> object of its own,
  copying a root-level field into that object throws a \<^verbatim>\<open>TypeError\<close>, here \<open>None\<close>.
\<close>

definition attributesToAnalyze :: "Document \<Rightarrow> (jsstring \<times> jsvalue) list option" where
  "attributesToAnalyze doc =
     (let rootLevel = filter (\<lambda>(k, v). k \<notin> set standardFields) (doc_fields doc)
      in case doc_attributes doc of
           None \<Rightarrow> Some rootLevel
         | Some own \<Rightarrow>
             (if length own = 0
              then (if length rootLevel = 0 then Some [] else None)
              else Some own))"

definition isInteger :: "jsvalue \<Rightarrow> bool" where
  "isInteger v = (case v of VNum r \<Rightarrow> of_int (floor r) = r | _ \<Rightarrow> False)"

definition arrayTypeOf :: "jsvalue list \<Rightarrow> jsstring" where
  "arrayTypeOf xs =
     (if length xs > 0 then
        (case find (\<lambda>el. el \<noteq> VNull \<and> el \<noteq> VUndefined) xs of
           None \<Rightarrow> (lit ''array'')
         | Some firstElement \<Rightarrow>
             (case firstElement of
                VNum n \<Rightarrow>
                  (if list_all (\<lambda>el. el = VNull \<or> el = VUndefined \<or> isInteger el) xs
                   then (lit ''[]int32'') else (lit ''[]float64''))
              | VStr str \<Rightarrow> (lit ''[]string'')
              | VBool b \<Rightarrow> (lit ''[]bool'')
              | _ \<Rightarrow> (lit ''array'')))
      else (lit ''array''))"

definition detectType :: "env \<Rightarrow> jsvalue \<Rightarrow> jsstring" where
  "detectType E v =
     (case v of
        VStr str \<Rightarrow> (if isDateString E str then (lit ''date'') else (lit ''string''))
      | VNum n \<Rightarrow> (lit ''number'')
      | VBool b \<Rightarrow> (lit ''boolean'')
      | VArr xs \<Rightarrow> arrayTypeOf xs
      | VObj kvs \<Rightarrow> (lit ''object'')
      | _ \<Rightarrow> (lit ''string''))"

text \<open>The attribute map after all rows: a name keeps the place of its first occurrence and
  the type of its last value. \<open>None\<close> when a row makes the analysis throw.\<close>

fun analyzeRows ::
  "env \<Rightarrow> (jsstring \<times> jsstring) list \<Rightarrow> Document list \<Rightarrow> (jsstring \<times> jsstring) list option" where
  "analyzeRows E m [] = Some m"
| "analyzeRows E m (doc # docs) =
     (case attributesToAnalyze doc of
        None \<Rightarrow> None
      | Some kvs \<Rightarrow>
          analyzeRows E (foldl (\<lambda>m' (k, v). mapSet m' k (detectType E v)) m kvs) docs)"

definition discoverTypes :: "env \<Rightarrow> Document list \<Rightarrow> (jsstring \<times> jsstring) list option" where
  "discoverTypes E docs = analyzeRows E [] docs"

text \<open>The store after discovery, or \<open>None\<close> when discovery throws before it writes.\<close>

definition discoverAttributesFromDocuments ::
  "env \<Rightarrow> Document list \<Rightarrow> DocumentsState \<Rightarrow> DocumentsState option" where
  "discoverAttributesFromDocuments E docs s =
     (if length docs = 0 then Some s
      else (case discoverTypes E docs of
              None \<Rightarrow> None
            | Some types \<Rightarrow>
                Some (s \<lparr> attributes := map (\<lambda>(n, ty). \<lparr> name = n, atype = ty \<rparr>) types \<rparr>)))"

section \<open>The load\<close>

subsection \<open>Result cache\<close>

definition CACHE_DURATION :: int where
  "CACHE_DURATION = 5 * 60 * 1000"

definition nullable :: "jsstring option \<Rightarrow> jsstring" where
  "nullable x = (case x of None \<Rightarrow> (lit ''null'') | Some str \<Rightarrow> str)"

definition filterJson :: "SimpleFilter \<Rightarrow> jsvalue" where
  "filterJson f = VObj [((lit ''id''), VStr (fid f)), ((lit ''attribute''), VStr (attribute f)),
                        ((lit ''operator''), VStr (operatorName (operator f))),
                        ((lit ''value''), fvalue f), ((lit ''displayValue''), VStr (displayValue f))]"

definition cacheKey :: "env \<Rightarrow> DocumentsState \<Rightarrow> int \<Rightarrow> int \<Rightarrow> jsstring" where
  "cacheKey E s page limit =
     nullable (currentConnectionId s) @ (lit '':'') @ nullable (currentNamespaceId s) @ (lit ''-'')
     @ searchText s @ (lit ''-'') @ jsonStringify E (VArr (map filterJson (activeFilters s)))
     @ (lit ''-'') @ showInt page @ (lit ''-'') @ showInt limit"

text \<open>The entry a non-forced load is served from at time \<open>now\<close>, if any.\<close>

definition cachedEntry :: "env \<Rightarrow> DocumentsState \<Rightarrow> int \<Rightarrow> bool \<Rightarrow> int \<Rightarrow> int \<Rightarrow> cacheEntry option" where
  "cachedEntry E s now force limit page =
     (if \<not> force then
        (case map_of (documentsCache s) (cacheKey E s page limit) of
           None \<Rightarrow> None
         | Some cached \<Rightarrow>
             (if now - c_timestamp cached < CACHE_DURATION then Some cached else None))
      else None)"

subsection \<open>Reading the answers\<close>

text \<open>\<^verbatim>\<open>countResult.aggregations?.count || 0\<close>\<close>

definition countOf :: "response \<Rightarrow> jsvalue" where
  "countOf r =
     (case aggregations_of r of
        None \<Rightarrow> VNum 0
      | Some ags \<Rightarrow>
          (case map_of ags (lit ''count'') of
             None \<Rightarrow> VNum 0
           | Some c \<Rightarrow> (if truthy c then c else VNum 0)))"

definition getProp :: "(jsstring \<times> jsvalue) list \<Rightarrow> jsstring \<Rightarrow> jsvalue" where
  "getProp kvs k = (case map_of kvs k of None \<Rightarrow> VUndefined | Some v \<Rightarrow> v)"

text \<open>The parse of \<^verbatim>\<open>result.aggregations\<close>. Reading a property of \<^verbatim>\<open>null\<close> or
  \<^verbatim>\<open>undefined\<close>, and calling \<^verbatim>\<open>map\<close> on a truthy value that is not an array, throw a
  \<^verbatim>\<open>TypeError\<close>: the result is \<open>None\<close>.\<close>

definition groupOf :: "jsvalue \<Rightarrow> (jsvalue \<times> jsvalue) option" where
  "groupOf g =
     (case g of
        VNull \<Rightarrow> None
      | VUndefined \<Rightarrow> None
      | VObj kvs \<Rightarrow> Some (getProp kvs (lit ''key''), getProp kvs (lit ''count''))
      | _ \<Rightarrow> Some (VUndefined, VUndefined))"

fun allSome :: "'a option list \<Rightarrow> 'a list option" where
  "allSome [] = Some []"
| "allSome (None # xs) = None"
| "allSome (Some x # xs) = (case allSome xs of None \<Rightarrow> None | Some ys \<Rightarrow> Some (x # ys))"

definition groupsOf :: "jsvalue \<Rightarrow> (jsvalue \<times> jsvalue) list option" where
  "groupsOf d =
     (case d of
        VNull \<Rightarrow> None
      | VUndefined \<Rightarrow> None
      | VObj kvs \<Rightarrow>
          (let gs = getProp kvs (lit ''groups'')
           in if \<not> truthy gs then Some []
              else (case gs of VArr xs \<Rightarrow> allSome (map groupOf xs) | _ \<Rightarrow> None))
      | _ \<Rightarrow> Some [])"

definition parseAggregations ::
  "(jsstring \<times> jsvalue) list option \<Rightarrow> (jsstring \<times> (jsvalue \<times> jsvalue) list) list option" where
  "parseAggregations ags =
     (case ags of
        None \<Rightarrow> Some []
      | Some kvs \<Rightarrow>
          allSome (map (\<lambda>(label, d). map_option (\<lambda>gs. (label, gs)) (groupsOf d)) kvs))"

definition errorMessage :: "thrown \<Rightarrow> jsstring" where
  "errorMessage e = (case e of ErrorInstance m \<Rightarrow> m | NonError \<Rightarrow> (lit ''Failed to load documents''))"

subsection \<open>Pagination bookkeeping\<close>

text \<open>The cursor stack and the page after a successful paginated query; \<open>cur\<close> is the
  store at that moment.\<close>

definition updatePagination :: "int \<Rightarrow> Document list \<Rightarrow> DocumentsState \<Rightarrow> DocumentsState" where
  "updatePagination page docs cur =
     (let newNextCursor = (if length docs > 0 then doc_id (last docs) else VNull);
          cur' = (if page > currentPage cur then
                    (if length (documents cur) > 0
                     then cur \<lparr> previousCursors :=
                                  jsArraySet (previousCursors cur) (currentPage cur - 1)
                                    (doc_id (documents cur ! 0)) \<rparr>
                     else cur)
                  else if page = 1 then cur \<lparr> previousCursors := [] \<rparr>
                  else cur)
      in cur' \<lparr> nextCursor := newNextCursor, currentPage := page \<rparr>)"

subsection \<open>The two branches of the load\<close>

text \<open>
  The execution capability is a function from the request to the rows or the thrown
  value. Within one load the count sub-query and the paginated query differ (only the
  latter has \<^verbatim>\<open>top_k\<close>), so this loses no behaviour of a backend with state; from one load
  to the next the function may change. Each branch returns how it ended and the calls
  it made, in order, each marked as the count sub-query or the paginated query.
\<close>

datatype queryCall = CountQuery request | PageQuery request

fun sent :: "queryCall \<Rightarrow> request" where
  "sent (CountQuery r) = r"
| "sent (PageQuery r) = r"

datatype branchResult =
    Threw thrown
  | Returned DocumentsState
  | Loaded DocumentsState "Document list" jsvalue

definition rowsOf :: "response \<Rightarrow> Document list" where
  "rowsOf r = (case rows r of None \<Rightarrow> [] | Some ds \<Rightarrow> ds)"

definition groupsOrNull :: "response \<Rightarrow> jsvalue option" where
  "groupsOrNull r =
     (case aggregation_groups r of
        None \<Rightarrow> None
      | Some g \<Rightarrow> (if truthy g then Some g else None))"

definition queryBranch ::
  "env \<Rightarrow> (request \<Rightarrow> thrown + response) \<Rightarrow> int \<Rightarrow> int \<Rightarrow> DocumentsState \<Rightarrow> DocumentsState
     \<Rightarrow> branchResult \<times> queryCall list" where
  "queryBranch E exec limit page s cur =
     (let combinedFilter = combineFilters (buildFilters E s);
          countReq = countRequest combinedFilter
      in case exec countReq of
           Inl e \<Rightarrow> (Threw e, [CountQuery countReq])
         | Inr countResult \<Rightarrow>
             (let totalCnt = countOf countResult;
                  finalFilter = withCursor s page combinedFilter
              in case determineRankBy E s of
                   None \<Rightarrow>
                     (Returned (cur \<lparr> error := Some noTextFieldsMessage, isLoading := False \<rparr>),
                      [CountQuery countReq])
                 | Some rankBy \<Rightarrow>
                     (let req = queryRequest s limit finalFilter rankBy
                      in case exec req of
                           Inl e \<Rightarrow> (Threw e, [CountQuery countReq, PageQuery req])
                         | Inr result \<Rightarrow>
                             (case parseAggregations (aggregations_of result) of
                                None \<Rightarrow>
                                  (Threw (ErrorInstance (typeErrorMessage E)),
                                   [CountQuery countReq, PageQuery req])
                              | Some parsed \<Rightarrow>
                                  (Loaded
                                     ((updatePagination page (rowsOf result) cur)
                                        \<lparr> aggregationResults :=
                                            (if length parsed > 0 then Some parsed else None),
                                          aggregationGroups := groupsOrNull result \<rparr>)
                                     (rowsOf result) totalCnt,
                                   [CountQuery countReq, PageQuery req])))))"

definition browseBranch ::
  "(request \<Rightarrow> thrown + response) \<Rightarrow> bool \<Rightarrow> int \<Rightarrow> int \<Rightarrow> DocumentsState \<Rightarrow> DocumentsState
     \<Rightarrow> branchResult \<times> queryCall list" where
  "browseBranch exec force limit page s cur =
     (let needCount = (force \<or> totalCount s = VNull \<or> unfilteredTotalCount s = VNull);
          countReq = countRequest None;
          req = browseRequest limit (withCursor s page None);
          fetch = (\<lambda>totalCnt calls.
                     case exec req of
                       Inl e \<Rightarrow> (Threw e, calls @ [PageQuery req])
                     | Inr resp \<Rightarrow>
                         (Loaded (updatePagination page (rowsOf resp) cur) (rowsOf resp) totalCnt,
                          calls @ [PageQuery req]))
      in if needCount then
           (case exec countReq of
              Inl e \<Rightarrow> (Threw e, [CountQuery countReq])
            | Inr countResult \<Rightarrow> fetch (countOf countResult) [CountQuery countReq])
         else fetch (totalCount s) [])"

subsection \<open>loadDocuments\<close>

text \<open>
  \<open>s\<close> is the store when the load starts, \<open>nowCheck\<close> and \<open>nowStore\<close> are the
  clock readings at the cache lookup and at the cache write. The result is the store
  when the load has settled and the calls made to the execution capability. The
  parameter \<^verbatim>\<open>loadMore\<close> of the source is never read. Discovery runs on the rows
  after they are stored; when it throws inside the \<^verbatim>\<open>try\<close> block the error is caught
  and its message stored, and in the cache branch, which is outside the block, the call
  of \<^verbatim>\<open>loadDocuments\<close> is rejected and the store keeps the cached rows.
\<close>

definition loadDocuments ::
  "env \<Rightarrow> (request \<Rightarrow> thrown + response) \<Rightarrow> int \<Rightarrow> int \<Rightarrow> bool \<Rightarrow> int \<Rightarrow> int \<Rightarrow> DocumentsState
     \<Rightarrow> DocumentsState \<times> queryCall list" where
  "loadDocuments E exec nowCheck nowStore force limit page s =
     (if \<not> truthyStr (currentNamespaceId s) \<or> isLoading s then (s, [])
      else if \<not> isClientInitialized s \<or> \<not> clientAvailable E then
        (s \<lparr> error := (if \<not> truthyStr (error s)
                         then Some (lit ''Client not initialized. Please wait...'')
                         else error s) \<rparr>, [])
      else
        (case cachedEntry E s nowCheck force limit page of
           Some cached \<Rightarrow>
             (let shown = s \<lparr> documents := c_documents cached,
                               totalCount := c_totalCount cached, currentPage := page \<rparr>
              in (case discoverAttributesFromDocuments E (c_documents cached) shown of
                    None \<Rightarrow> shown
                  | Some st \<Rightarrow> st,
                  []))
         | None \<Rightarrow>
             (let cur = s \<lparr> isLoading := True, error := None,
                           pageSize := (if limit \<noteq> pageSize s then limit else pageSize s) \<rparr>;
                  branch = (if shouldUseQueryMode s
                            then queryBranch E exec limit page s cur
                            else browseBranch exec force limit page s cur)
              in case fst branch of
                   Threw e \<Rightarrow>
                     (cur \<lparr> error := Some (errorMessage e), isLoading := False \<rparr>, snd branch)
                 | Returned st \<Rightarrow> (st \<lparr> isLoading := False \<rparr>, snd branch)
                 | Loaded st docs totalCnt \<Rightarrow>
                     (let stored =
                            st \<lparr> documents := docs, totalCount := totalCnt, currentPage := page,
                                 unfilteredTotalCount :=
                                   (if \<not> shouldUseQueryMode s \<and> totalCnt \<noteq> VNull
                                    then totalCnt else unfilteredTotalCount st),
                                 documentsCache :=
                                   mapSet (documentsCache st) (cacheKey E s page limit)
                                     \<lparr> c_documents = docs, c_totalCount = totalCnt,
                                       c_timestamp = nowStore \<rparr> \<rparr>
                      in ((case discoverAttributesFromDocuments E docs stored of
                             None \<Rightarrow> stored \<lparr> error := Some (notExtensibleMessage E) \<rparr>
                           | Some st' \<Rightarrow> st')
                            \<lparr> isLoading := False \<rparr>,
                          snd branch)))))"

section \<open>Example inputs\<close>

text \<open>The initial state of the store.\<close>

definition initialState :: DocumentsState where
  "initialState =
     \<lparr> documents = [], totalCount = VNull, unfilteredTotalCount = VNull, attributes = [],
       nextCursor = VNull, previousCursors = [], currentPage = 1, pageSize = 100,
       currentConnectionId = None, isLoading = False, error = None,
       isClientInitialized = False, currentNamespaceId = None, searchText = [],
       activeFilters = [], isQueryMode = False, sortAttribute = None, sortDirection = Asc,
       queryMode = Browse, searchField = None, vectorQuery = None, vectorField = None,
       bm25Fields = [], bm25Operator = BSum, rankingMode = Simple,
       rankingExpression = NullNode, aggregations = [], aggregationResults = None,
       groupByAttributes = [], aggregationGroups = None, isGroupedQuery = False,
       documentsCache = [] \<rparr>"

text \<open>The store once a connection and a namespace are chosen and the client is ready.\<close>

definition readyState :: DocumentsState where
  "readyState = initialState \<lparr> currentConnectionId := Some (lit ''c1''),
                               currentNamespaceId := Some (lit ''ns''),
                               isClientInitialized := True \<rparr>"

subsection \<open>An environment\<close>

text \<open>
  \<^verbatim>\<open>JSON.stringify\<close> of a string: the quotation mark (34) and the backslash (92) are
  escaped with a backslash, the control characters below 32 with their short escape or
  with \<^verbatim>\<open>\u00xx\<close>, and a surrogate outside a pair with \<^verbatim>\<open>\udxxx\<close>, in lower-case
  hexadecimal digits.
\<close>

definition hexDigit :: "int \<Rightarrow> int" where
  "hexDigit d = (if d < 10 then 48 + d else 87 + d)"

definition unicodeEscape :: "int \<Rightarrow> jsstring" where
  "unicodeEscape c = [92, 117, hexDigit (c div 4096), hexDigit (c div 256 mod 16),
                      hexDigit (c div 16 mod 16), hexDigit (c mod 16)]"

definition escapeUnit :: "int \<Rightarrow> jsstring" where
  "escapeUnit c =
     (if c = 34 then [92, 34]
      else if c = 92 then [92, 92]
      else if c = 8 then [92, 98]
      else if c = 9 then [92, 116]
      else if c = 10 then [92, 110]
      else if c = 12 then [92, 102]
      else if c = 13 then [92, 114]
      else if c < 32 then unicodeEscape c
      else [c])"

definition leadSurrogate :: "int \<Rightarrow> bool" where
  "leadSurrogate c = (55296 \<le> c \<and> c \<le> 56319)"

definition trailSurrogate :: "int \<Rightarrow> bool" where
  "trailSurrogate c = (56320 \<le> c \<and> c \<le> 57343)"

fun quoteUnits :: "jsstring \<Rightarrow> jsstring" where
  "quoteUnits [] = []"
| "quoteUnits [c] =
     (if leadSurrogate c \<or> trailSurrogate c then unicodeEscape c else escapeUnit c)"
| "quoteUnits (c # d # cs) =
     (if leadSurrogate c \<and> trailSurrogate d then c # d # quoteUnits cs
      else if leadSurrogate c \<or> trailSurrogate c then unicodeEscape c @ quoteUnits (d # cs)
      else escapeUnit c @ quoteUnits (d # cs))"

definition quoteJSON :: "jsstring \<Rightarrow> jsstring" where
  "quoteJSON s = 34 # quoteUnits s @ [34]"

text \<open>
  \<^verbatim>\<open>JSON.stringify\<close> of a value: \<^verbatim>\<open>undefined\<close> is \<^verbatim>\<open>null\<close> as an element of an array and
  is left out as a property of an object. Numbers are printed when they are integers;
  the examples hold no other number.
\<close>

fun jsonText :: "jsvalue \<Rightarrow> jsstring" where
  "jsonText VUndefined = lit ''null''"
| "jsonText VNull = lit ''null''"
| "jsonText (VBool b) = (if b then lit ''true'' else lit ''false'')"
| "jsonText (VNum n) = showInt (floor n)"
| "jsonText (VStr s) = quoteJSON s"
| "jsonText (VArr xs) = lit ''['' @ joinWith (lit '','') (map jsonText xs) @ lit '']''"
| "jsonText (VObj kvs) =
     lit ''{''
     @ joinWith (lit '','')
         (map (\<lambda>kv. quoteJSON (fst kv) @ lit '':'' @ jsonText (snd kv))
            (filter (\<lambda>kv. snd kv \<noteq> VUndefined) kvs))
     @ lit ''}''"

text \<open>\<^verbatim>\<open>String(v)\<close>, with the same reading of numbers; inside an array \<^verbatim>\<open>null\<close> and
  \<^verbatim>\<open>undefined\<close> are the empty string.\<close>

fun stringOf :: "jsvalue \<Rightarrow> jsstring" where
  "stringOf VUndefined = lit ''undefined''"
| "stringOf VNull = lit ''null''"
| "stringOf (VBool b) = (if b then lit ''true'' else lit ''false'')"
| "stringOf (VNum n) = showInt (floor n)"
| "stringOf (VStr s) = s"
| "stringOf (VArr xs) =
     joinWith (lit '','')
       (map (\<lambda>x. if x = VNull \<or> x = VUndefined then [] else stringOf x) xs)"
| "stringOf (VObj kvs) = lit ''[object Object]''"

text \<open>Lower case on the letters of the Basic Latin and Latin-1 Supplement blocks; the
  examples hold no other letter.\<close>

definition lowerUnit :: "int \<Rightarrow> int" where
  "lowerUnit c = (if (65 \<le> c \<and> c \<le> 90) \<or> (192 \<le> c \<and> c \<le> 222 \<and> c \<noteq> 215) then c + 32 else c)"

text \<open>The pattern \<^verbatim>\<open>/^\d{4}-\d{2}-\d{2}/\<close>; \<^verbatim>\<open>Date.parse\<close> accepts no string of the
  examples that fails the pattern.\<close>

definition isDigit :: "int \<Rightarrow> bool" where
  "isDigit c = (48 \<le> c \<and> c \<le> 57)"

definition datePrefix :: "jsstring \<Rightarrow> bool" where
  "datePrefix s =
     (length s \<ge> 10 \<and> list_all isDigit (take 4 s) \<and> s ! 4 = 45
      \<and> list_all isDigit (take 2 (drop 5 s)) \<and> s ! 7 = 45
      \<and> list_all isDigit (take 2 (drop 8 s)))"

text \<open>Array types are \<^verbatim>\<open>array\<close> and the types that start with \<^verbatim>\<open>[]\<close>, the types
  discovery gives to array values; the input of a filter is kept as a string.\<close>

definition exampleEnv :: env where
  "exampleEnv =
     \<lparr> isArrayType = (\<lambda>ty. case ty of None \<Rightarrow> False
                                      | Some n \<Rightarrow> n = lit ''array'' \<or> take 2 n = lit ''[]''),
       parseValueForFieldType = (\<lambda>str ty. VStr str),
       jsString = stringOf,
       jsonStringify = jsonText,
       toLowerCase = map lowerUnit,
       isDateString = datePrefix,
       clientAvailable = True,
       typeErrorMessage = lit ''Cannot read properties of null'',
       notExtensibleMessage = lit ''Cannot add property, object is not extensible'' \<rparr>"

subsection \<open>Backends\<close>

text \<open>A backend with three rows, keyed 1, 2 and 3, that serves pages of two rows.\<close>

definition exampleRow :: "rat \<Rightarrow> Document" where
  "exampleRow n = \<lparr> doc_id = VNum n, doc_attributes = Some [(lit ''title'', VStr (lit ''t''))],
                    doc_fields = [] \<rparr>"

definition countAnswer :: "rat \<Rightarrow> response" where
  "countAnswer n = \<lparr> rows = None, aggregations_of = Some [(lit ''count'', VNum n)],
                     aggregation_groups = None \<rparr>"

definition rowsAnswer :: "Document list \<Rightarrow> response" where
  "rowsAnswer ds = \<lparr> rows = Some ds, aggregations_of = None, aggregation_groups = None \<rparr>"

definition exampleBackend :: "request \<Rightarrow> thrown + response" where
  "exampleBackend r =
     (if top_k r = None then Inr (countAnswer 3)
      else if filters r = Some (VArr [VStr (lit ''id''), VStr (lit ''Gt''), VNum 2])
      then Inr (rowsAnswer [exampleRow 3])
      else Inr (rowsAnswer [exampleRow 1, exampleRow 2]))"

definition failingBackend :: "request \<Rightarrow> thrown + response" where
  "failingBackend r = Inl (ErrorInstance (lit ''503 Service Unavailable''))"

text \<open>The same three rows behind a backend that orders them by relevance: rows 1 and 2
  come first when the ranking is by the field \<^verbatim>\<open>body\<close>, rows 3 and 1 under any other
  ranking.\<close>

definition rankedBackend :: "request \<Rightarrow> thrown + response" where
  "rankedBackend r =
     (if top_k r = None then Inr (countAnswer 3)
      else if rank_by r = Some (VArr [VStr (lit ''body''), VStr (lit ''BM25''), VStr (lit ''hello'')])
      then Inr (rowsAnswer [exampleRow 1, exampleRow 2])
      else Inr (rowsAnswer [exampleRow 3, exampleRow 1]))"

text \<open>The same three rows behind a backend where rows 1 and 2 hold the tag \<^verbatim>\<open>x\<close> and a
  status other than \<^verbatim>\<open>draft\<close>, and no row satisfies any other filter.\<close>

definition taggedBackend :: "request \<Rightarrow> thrown + response" where
  "taggedBackend r =
     (if top_k r = None then Inr (countAnswer 2)
      else if filters r = Some (VArr [VStr (lit ''And''),
                 VArr [VArr [VStr (lit ''tags''), VStr (lit ''ContainsAny''), VStr (lit ''x'')],
                       VArr [VStr (lit ''status''), VStr (lit ''NotEq''), VStr (lit ''draft'')]]])
      then Inr (rowsAnswer [exampleRow 1, exampleRow 2])
      else Inr (rowsAnswer []))"

subsection \<open>Stores\<close>

text \<open>Two predicates: \<^verbatim>\<open>tags equals [x, y]\<close> on an array attribute and
  \<^verbatim>\<open>status not_equals draft\<close> on a scalar one.\<close>

definition tagsFilter :: SimpleFilter where
  "tagsFilter = \<lparr> fid = lit ''f1'', attribute = lit ''tags'', operator = OpEquals,
                  fvalue = VArr [VStr (lit ''x''), VStr (lit ''y'')],
                  displayValue = lit ''[x, y]'' \<rparr>"

definition statusFilter :: SimpleFilter where
  "statusFilter = \<lparr> fid = lit ''f2'', attribute = lit ''status'', operator = OpNotEquals,
                    fvalue = VStr (lit ''draft''), displayValue = lit ''draft'' \<rparr>"

definition filteredState :: DocumentsState where
  "filteredState =
     readyState \<lparr> attributes := [\<lparr> name = lit ''tags'', atype = lit ''[]string'' \<rparr>,
                                 \<lparr> name = lit ''status'', atype = lit ''string'' \<rparr>],
                  activeFilters := [tagsFilter, statusFilter],
                  isQueryMode := True \<rparr>"

text \<open>One aggregation named \<^verbatim>\<open>total\<close>, with and without predicates, and a second one
  named \<^verbatim>\<open>mean\<close> after it.\<close>

definition totalAggregation :: AggregationConfig where
  "totalAggregation = \<lparr> agg_name = lit ''total'',
                        agg_settings = [(lit ''function'', VStr (lit ''Sum''))] \<rparr>"

definition meanAggregation :: AggregationConfig where
  "meanAggregation = \<lparr> agg_name = lit ''mean'',
                       agg_settings = [(lit ''function'', VStr (lit ''Avg'')),
                                       (lit ''field'', VStr (lit ''price''))] \<rparr>"

definition aggregationOnlyState :: DocumentsState where
  "aggregationOnlyState = readyState \<lparr> aggregations := [totalAggregation] \<rparr>"

definition twoAggregationsState :: DocumentsState where
  "twoAggregationsState = readyState \<lparr> aggregations := [totalAggregation, meanAggregation] \<rparr>"

definition filteredTwoAggregationsState :: DocumentsState where
  "filteredTwoAggregationsState =
     filteredState \<lparr> aggregations := [totalAggregation, meanAggregation] \<rparr>"

definition groupedState :: DocumentsState where
  "groupedState = filteredState \<lparr> aggregations := [totalAggregation],
                                  groupByAttributes := [lit ''category''] \<rparr>"

text \<open>The combined filter of the two predicates of \<open>filteredState\<close>.\<close>

definition filteredFilter :: jsvalue where
  "filteredFilter =
     VArr [VStr (lit ''And''),
           VArr [VArr [VStr (lit ''tags''), VStr (lit ''ContainsAny''), VStr (lit ''x'')],
                 VArr [VStr (lit ''status''), VStr (lit ''NotEq''), VStr (lit ''draft'')]]]"

text \<open>A sort by \<^verbatim>\<open>name\<close>, descending, without and with predicates.\<close>

definition sortedBrowseState :: DocumentsState where
  "sortedBrowseState = readyState \<lparr> sortAttribute := Some (lit ''name''),
                                    sortDirection := Desc \<rparr>"

definition sortedFilteredState :: DocumentsState where
  "sortedFilteredState = filteredState \<lparr> sortAttribute := Some (lit ''name''),
                                        sortDirection := Desc \<rparr>"

text \<open>Full-text search for \<^verbatim>\<open>hello\<close> over the fields \<^verbatim>\<open>a\<close> and \<^verbatim>\<open>b\<close> with weight 1 and
  the operator \<^verbatim>\<open>sum\<close>.\<close>

definition fullTextState :: DocumentsState where
  "fullTextState =
     readyState \<lparr> queryMode := BM25, searchText := lit ''hello'',
                  bm25Fields := [\<lparr> field = lit ''a'', weight = 1 \<rparr>,
                                 \<lparr> field = lit ''b'', weight = 1 \<rparr>],
                  bm25Operator := BSum \<rparr>"

definition fullTextRequest :: request where
  "fullTextRequest =
     \<lparr> filters = None,
       rank_by = Some (VArr [VStr (lit ''Sum''),
                    VArr [VArr [VStr (lit ''a''), VStr (lit ''BM25''), VStr (lit ''hello'')],
                          VArr [VStr (lit ''b''), VStr (lit ''BM25''), VStr (lit ''hello'')]]]),
       top_k = Some 2, include_attributes = Some True, aggregate_by = None,
       group_by = None \<rparr>"

text \<open>The same search with weight 2 on the field \<^verbatim>\<open>a\<close> and the operator \<^verbatim>\<open>max\<close>.\<close>

definition weightedTextState :: DocumentsState where
  "weightedTextState =
     fullTextState \<lparr> bm25Fields := [\<lparr> field = lit ''a'', weight = 2 \<rparr>,
                                    \<lparr> field = lit ''b'', weight = 1 \<rparr>],
                     bm25Operator := BMax \<rparr>"

text \<open>Full-text search with no configured field: with no attribute in the registry, and
  with a registry that holds the text attribute \<^verbatim>\<open>body\<close>, which the rows of the
  example backends do not carry.\<close>

definition noTextFieldState :: DocumentsState where
  "noTextFieldState = readyState \<lparr> queryMode := BM25, searchText := lit ''hello'' \<rparr>"

definition bodySearchState :: DocumentsState where
  "bodySearchState =
     readyState \<lparr> queryMode := BM25, searchText := lit ''hello'',
                  attributes := [\<lparr> name = lit ''body'', atype = lit ''string'' \<rparr>] \<rparr>"

text \<open>The store after the first page has been loaded from the example backend.\<close>

definition pageOneState :: DocumentsState where
  "pageOneState = fst (loadDocuments exampleEnv exampleBackend 0 1 True 2 1 readyState)"

text \<open>A search for the identifiers that contain \<^verbatim>\<open>doc\<close>, with a cached first page
  written at time 0.\<close>

definition cachedSearchState :: DocumentsState where
  "cachedSearchState =
     readyState \<lparr> searchText := lit ''doc'', isQueryMode := True,
                  documentsCache :=
                    [(lit ''c1:ns-doc-[]-1-2'',
                      \<lparr> c_documents = [exampleRow 1], c_totalCount = VNum 1,
                        c_timestamp = 0 \<rparr>)] \<rparr>"

text \<open>The store after a forced load of the second page from \<open>pageOneState\<close>.\<close>

definition pageTwoState :: DocumentsState where
  "pageTwoState = fst (loadDocuments exampleEnv exampleBackend 10 11 True 2 2 pageOneState)"

text \<open>The store after the first and the second page have been loaded without force, as
  the page buttons load them.\<close>

definition browsedPageTwoState :: DocumentsState where
  "browsedPageTwoState =
     fst (loadDocuments exampleEnv exampleBackend 10 11 False 2 2
            (fst (loadDocuments exampleEnv exampleBackend 0 1 False 2 1 readyState)))"

text \<open>Three forced loads in a row, of page 1, of page 2 and of page 1 again; the result
  is the rows shown after the first and after the third.\<close>

definition forwardThenBackward ::
  "(request \<Rightarrow> thrown + response) \<Rightarrow> DocumentsState \<Rightarrow> Document list \<times> Document list" where
  "forwardThenBackward exec s0 =
     (let s1 = fst (loadDocuments exampleEnv exec 0 1 True 2 1 s0);
          s2 = fst (loadDocuments exampleEnv exec 10 11 True 2 2 s1);
          s3 = fst (loadDocuments exampleEnv exec 20 21 True 2 1 s2)
      in (documents s1, documents s3))"

section \<open>Predicates over states\<close>

text \<open>The pagination of a state is reset.\<close>

definition resetsPagination :: "DocumentsState \<Rightarrow> bool" where
  "resetsPagination s' = (currentPage s' = 1 \<and> previousCursors s' = [] \<and> nextCursor s' = VNull)"

text \<open>The load passes the guards at its entry: a namespace is set, no load is
  outstanding and the client is initialised.\<close>

definition admitted :: "env \<Rightarrow> DocumentsState \<Rightarrow> bool" where
  "admitted E s = (truthyStr (currentNamespaceId s) \<and> \<not> isLoading s
                   \<and> isClientInitialized s \<and> clientAvailable E)"

text \<open>Two states have the same query configuration, connection and namespace.\<close>

definition sameConfig :: "DocumentsState \<Rightarrow> DocumentsState \<Rightarrow> bool" where
  "sameConfig s s' =
     (searchText s' = searchText s \<and> activeFilters s' = activeFilters s
      \<and> queryMode s' = queryMode s \<and> rankingMode s' = rankingMode s
      \<and> rankingExpression s' = rankingExpression s
      \<and> sortAttribute s' = sortAttribute s \<and> sortDirection s' = sortDirection s
      \<and> vectorQuery s' = vectorQuery s \<and> vectorField s' = vectorField s
      \<and> bm25Fields s' = bm25Fields s \<and> bm25Operator s' = bm25Operator s
      \<and> aggregations s' = aggregations s \<and> groupByAttributes s' = groupByAttributes s
      \<and> currentConnectionId s' = currentConnectionId s
      \<and> currentNamespaceId s' = currentNamespaceId s
      \<and> isClientInitialized s' = isClientInitialized s)"

text \<open>The paginated request that a load of page \<open>page\<close> compiles from the state \<open>s\<close>;
  \<open>None\<close> when the ranking does not compile.\<close>

definition pageRequest :: "env \<Rightarrow> DocumentsState \<Rightarrow> int \<Rightarrow> int \<Rightarrow> request option" where
  "pageRequest E s limit page =
     (if shouldUseQueryMode s
      then map_option (queryRequest s limit (withCursor s page (combineFilters (buildFilters E s))))
             (determineRankBy E s)
      else Some (browseRequest limit (withCursor s page None)))"

section \<open>Pagination reset\<close>

text \<open>
  C4. Every mutator of the query configuration (search text, add, update and remove
  filter, sort attribute, query mode, search field, vector query, BM25 configuration,
  ranking mode, ranking expression, aggregations, group-by attributes) leaves the state
  with \<^verbatim>\<open>currentPage = 1\<close>, \<^verbatim>\<open>previousCursors = []\<close> and \<^verbatim>\<open>nextCursor = null\<close>.
\<close>

theorem mutators_reset_pagination:
  "resetsPagination (setSearchText txt s)
   \<and> resetsPagination (addFilter E newId attr oper rawValue s)
   \<and> resetsPagination (updateFilter E filterId attr oper rawValue s)
   \<and> resetsPagination (removeFilter filterId s)
   \<and> resetsPagination (setSortAttribute sortAttr direction s)
   \<and> resetsPagination (setQueryMode qm s)
   \<and> resetsPagination (setSearchField fld s)
   \<and> resetsPagination (setVectorQuery vec vfld s)
   \<and> resetsPagination (setBM25Config flds bop s)
   \<and> resetsPagination (setRankingMode rm s)
   \<and> resetsPagination (setRankingExpression expr s)
   \<and> resetsPagination (setAggregations aggs s)
   \<and> resetsPagination (setGroupByAttributes gattrs s)"
  by (simp add: resetsPagination_def setSearchText_def addFilter_def updateFilter_def
      removeFilter_def setSortAttribute_def setQueryMode_def setSearchField_def
      setVectorQuery_def setBM25Config_def setRankingMode_def setRankingExpression_def
      setAggregations_def setGroupByAttributes_def Let_def)

section \<open>The requests a load sends\<close>

lemma queryBranch_PageQuery:
  "PageQuery r \<in> set (snd (queryBranch E exec limit page s cur)) \<Longrightarrow>
   \<exists>rb. determineRankBy E s = Some rb
        \<and> r = queryRequest s limit (withCursor s page (combineFilters (buildFilters E s))) rb"
  by (auto simp: queryBranch_def Let_def split: sum.splits option.splits)

lemma browseBranch_PageQuery:
  "PageQuery r \<in> set (snd (browseBranch exec force limit page s cur)) \<Longrightarrow>
   r = browseRequest limit (withCursor s page None)"
  by (auto simp: browseBranch_def Let_def split: sum.splits if_splits)

lemma queryBranch_CountQuery:
  "CountQuery r \<in> set (snd (queryBranch E exec limit page s cur)) \<Longrightarrow>
   r = countRequest (combineFilters (buildFilters E s))"
  by (auto simp: queryBranch_def Let_def split: sum.splits option.splits)

lemma browseBranch_CountQuery:
  "CountQuery r \<in> set (snd (browseBranch exec force limit page s cur)) \<Longrightarrow>
   r = countRequest None"
  by (auto simp: browseBranch_def Let_def split: sum.splits if_splits)

lemma snd_loadDocuments:
  "snd (loadDocuments E exec nowCheck nowStore force limit page s) =
     (if \<not> truthyStr (currentNamespaceId s) \<or> isLoading s then []
      else if \<not> isClientInitialized s \<or> \<not> clientAvailable E then []
      else if cachedEntry E s nowCheck force limit page \<noteq> None then []
      else if shouldUseQueryMode s
      then snd (queryBranch E exec limit page s
                  (s \<lparr> isLoading := True, error := None,
                       pageSize := (if limit \<noteq> pageSize s then limit else pageSize s) \<rparr>))
      else snd (browseBranch exec force limit page s
                  (s \<lparr> isLoading := True, error := None,
                       pageSize := (if limit \<noteq> pageSize s then limit else pageSize s) \<rparr>)))"
  by (simp add: loadDocuments_def Let_def split: option.splits branchResult.splits)

lemma load_PageQuery:
  assumes "PageQuery r \<in> set (snd (loadDocuments E exec nowCheck nowStore force limit page s))"
  shows "(shouldUseQueryMode s \<and>
           (\<exists>rb. determineRankBy E s = Some rb
              \<and> r = queryRequest s limit (withCursor s page (combineFilters (buildFilters E s))) rb))
         \<or> (\<not> shouldUseQueryMode s \<and> r = browseRequest limit (withCursor s page None))"
  using assms
  by (auto simp: snd_loadDocuments split: if_splits
      dest: queryBranch_PageQuery browseBranch_PageQuery)

lemma load_CountQuery:
  assumes "CountQuery r \<in> set (snd (loadDocuments E exec nowCheck nowStore force limit page s))"
  shows "\<exists>flt. r = countRequest flt"
  using assms
  by (auto simp: snd_loadDocuments split: if_splits
      dest: queryBranch_CountQuery browseBranch_CountQuery)

lemma snd_queryBranch:
  "snd (queryBranch E exec limit page s cur) =
     (case exec (countRequest (combineFilters (buildFilters E s))) of
        Inl e \<Rightarrow> [CountQuery (countRequest (combineFilters (buildFilters E s)))]
      | Inr countResult \<Rightarrow>
          (case determineRankBy E s of
             None \<Rightarrow> [CountQuery (countRequest (combineFilters (buildFilters E s)))]
           | Some rb \<Rightarrow>
               [CountQuery (countRequest (combineFilters (buildFilters E s))),
                PageQuery (queryRequest s limit
                             (withCursor s page (combineFilters (buildFilters E s))) rb)]))"
  by (simp add: queryBranch_def Let_def split: sum.splits option.splits)

lemma snd_browseBranch:
  "snd (browseBranch exec force limit page s cur) =
     (if force \<or> totalCount s = VNull \<or> unfilteredTotalCount s = VNull
      then (case exec (countRequest None) of
              Inl e \<Rightarrow> [CountQuery (countRequest None)]
            | Inr countResult \<Rightarrow>
                [CountQuery (countRequest None),
                 PageQuery (browseRequest limit (withCursor s page None))])
      else [PageQuery (browseRequest limit (withCursor s page None))])"
  by (simp add: browseBranch_def Let_def split: sum.splits option.splits)

lemma loadDocuments_fetch:
  assumes "admitted E s" and "cachedEntry E s nowCheck force limit page = None"
  shows "loadDocuments E exec nowCheck nowStore force limit page s =
     (let cur = s \<lparr> isLoading := True, error := None,
                   pageSize := (if limit \<noteq> pageSize s then limit else pageSize s) \<rparr>;
          branch = (if shouldUseQueryMode s
                    then queryBranch E exec limit page s cur
                    else browseBranch exec force limit page s cur)
      in case fst branch of
           Threw e \<Rightarrow>
             (cur \<lparr> error := Some (errorMessage e), isLoading := False \<rparr>, snd branch)
         | Returned st \<Rightarrow> (st \<lparr> isLoading := False \<rparr>, snd branch)
         | Loaded st docs totalCnt \<Rightarrow>
             (let stored =
                    st \<lparr> documents := docs, totalCount := totalCnt, currentPage := page,
                         unfilteredTotalCount :=
                           (if \<not> shouldUseQueryMode s \<and> totalCnt \<noteq> VNull
                            then totalCnt else unfilteredTotalCount st),
                         documentsCache :=
                           mapSet (documentsCache st) (cacheKey E s page limit)
                             \<lparr> c_documents = docs, c_totalCount = totalCnt,
                               c_timestamp = nowStore \<rparr> \<rparr>
              in ((case discoverAttributesFromDocuments E docs stored of
                     None \<Rightarrow> stored \<lparr> error := Some (notExtensibleMessage E) \<rparr>
                   | Some st' \<Rightarrow> st')
                    \<lparr> isLoading := False \<rparr>,
                  snd branch)))"
  using assms by (simp add: loadDocuments_def admitted_def)

lemma calls_imply_fetch:
  assumes "snd (loadDocuments E exec nowCheck nowStore force limit page s) \<noteq> []"
  shows "admitted E s \<and> cachedEntry E s nowCheck force limit page = None"
  using assms by (auto simp: snd_loadDocuments admitted_def split: if_splits)

lemma queryBranch_rejected:
  assumes "c \<in> set (snd (queryBranch E exec limit page s cur))" and "exec (sent c) = Inl e"
  shows "fst (queryBranch E exec limit page s cur) = Threw e"
  using assms
  by (auto simp: queryBranch_def Let_def split: sum.splits option.splits)

lemma browseBranch_rejected:
  assumes "c \<in> set (snd (browseBranch exec force limit page s cur))" and "exec (sent c) = Inl e"
  shows "fst (browseBranch exec force limit page s cur) = Threw e"
  using assms
  by (auto simp: browseBranch_def Let_def split: sum.splits option.splits if_splits)

section \<open>Predicates on array and scalar attributes\<close>

text \<open>
  C2. For an active predicate with operator \<^verbatim>\<open>equals\<close> the compiled filter, an entry of
  the filter list, is \<^verbatim>\<open>[attribute, "ContainsAny", v]\<close> when the discovered type of the
  attribute is an array type, with \<open>v\<close> the first element of a stored array and the
  stored value otherwise, and \<^verbatim>\<open>[attribute, "Eq", value]\<close> when the type is scalar. For
  \<^verbatim>\<open>not_equals\<close> the array case is \<^verbatim>\<open>["Not", [attribute, "ContainsAny", v]]\<close> and the
  scalar case \<^verbatim>\<open>[attribute, "NotEq", value]\<close>.
\<close>

theorem equals_compiles_by_attribute_type:
  assumes "f \<in> set (activeFilters s)"
  shows "compileFilter E (attributes s) f \<in> set (buildFilters E s)
    \<and> (operator f = OpEquals \<and> isArrayType E (fieldTypeOf (attributes s) (attribute f)) \<longrightarrow>
         compileFilter E (attributes s) f
           = VArr [VStr (attribute f), VStr (lit ''ContainsAny''), firstIfArray (fvalue f)])
    \<and> (operator f = OpEquals \<and> \<not> isArrayType E (fieldTypeOf (attributes s) (attribute f)) \<longrightarrow>
         compileFilter E (attributes s) f = VArr [VStr (attribute f), VStr (lit ''Eq''), fvalue f])
    \<and> (operator f = OpNotEquals \<and> isArrayType E (fieldTypeOf (attributes s) (attribute f)) \<longrightarrow>
         compileFilter E (attributes s) f
           = VArr [VStr (lit ''Not''),
                   VArr [VStr (attribute f), VStr (lit ''ContainsAny''), firstIfArray (fvalue f)]])
    \<and> (operator f = OpNotEquals \<and> \<not> isArrayType E (fieldTypeOf (attributes s) (attribute f)) \<longrightarrow>
         compileFilter E (attributes s) f = VArr [VStr (attribute f), VStr (lit ''NotEq''), fvalue f])
    \<and> (\<forall>x xs. fvalue f = VArr (x # xs) \<longrightarrow> firstIfArray (fvalue f) = x)
    \<and> (\<not> isArray (fvalue f) \<longrightarrow> firstIfArray (fvalue f) = fvalue f)"
proof -
  have "compileFilter E (attributes s) f \<in> set (buildFilters E s)"
    using assms by (simp add: buildFilters_def)
  moreover have "\<not> isArray (fvalue f) \<longrightarrow> firstIfArray (fvalue f) = fvalue f"
    by (cases "fvalue f") simp_all
  ultimately show ?thesis
    by (simp add: compileFilter_def Let_def)
qed

theorem equals_compiles_by_attribute_type_witness:
  "tagsFilter \<in> set (activeFilters filteredState)
   \<and> compileFilter exampleEnv (attributes filteredState) tagsFilter
       \<in> set (buildFilters exampleEnv filteredState)
   \<and> compileFilter exampleEnv (attributes filteredState) tagsFilter
       = VArr [VStr (lit ''tags''), VStr (lit ''ContainsAny''), VStr (lit ''x'')]"
proof -
  have h: "tagsFilter \<in> set (activeFilters filteredState)" by code_simp
  have a: "operator tagsFilter = OpEquals
           \<and> isArrayType exampleEnv (fieldTypeOf (attributes filteredState) (attribute tagsFilter))"
    by code_simp
  have v1: "attribute tagsFilter = (lit ''tags'')" by code_simp
  have v2: "firstIfArray (fvalue tagsFilter) = VStr (lit ''x'')" by code_simp
  note t = equals_compiles_by_attribute_type [OF h, of exampleEnv]
  from t have c1: "compileFilter exampleEnv (attributes filteredState) tagsFilter
                     \<in> set (buildFilters exampleEnv filteredState)" by blast
  from t a have "compileFilter exampleEnv (attributes filteredState) tagsFilter
       = VArr [VStr (attribute tagsFilter), VStr (lit ''ContainsAny''), firstIfArray (fvalue tagsFilter)]"
    by blast
  then have c2: "compileFilter exampleEnv (attributes filteredState) tagsFilter
       = VArr [VStr (lit ''tags''), VStr (lit ''ContainsAny''), VStr (lit ''x'')]"
    unfolding v1 v2 .
  from h c1 c2 show ?thesis by blast
qed

lemma blank_search_text_is_browse:
  "trim [160, 8239, 32, 65279] = []
   \<and> \<not> shouldUseQueryMode (readyState \<lparr> searchText := [160, 8239, 32, 65279] \<rparr>)"
  by code_simp

section \<open>Aggregation and ranking exclude each other\<close>

text \<open>
  What the query branch does. No request of a load carries \<^verbatim>\<open>aggregate_by\<close> together
  with \<^verbatim>\<open>rank_by\<close> or \<^verbatim>\<open>include_attributes\<close>. In a load with an active predicate or a
  search text that is not blank, the paginated request has \<^verbatim>\<open>aggregate_by\<close>, has
  \<^verbatim>\<open>group_by\<close> exactly when group-by attributes are set, and has neither \<^verbatim>\<open>rank_by\<close> nor
  \<^verbatim>\<open>include_attributes\<close> when an aggregation is configured; with no aggregation it has
  \<^verbatim>\<open>include_attributes\<close>, the compiled ranking as \<^verbatim>\<open>rank_by\<close> and no \<^verbatim>\<open>aggregate_by\<close>.
\<close>

lemma query_mode_aggregation_exclusivity:
  assumes "c \<in> set (snd (loadDocuments E exec nowCheck nowStore force limit page s))"
  shows "\<not> (aggregate_by (sent c) \<noteq> None
            \<and> (rank_by (sent c) \<noteq> None \<or> include_attributes (sent c) \<noteq> None))
    \<and> (\<forall>r. c = PageQuery r \<and> shouldUseQueryMode s \<and> aggregations s \<noteq> [] \<longrightarrow>
          aggregate_by r \<noteq> None \<and> (group_by r \<noteq> None) = (groupByAttributes s \<noteq> [])
          \<and> rank_by r = None \<and> include_attributes r = None)
    \<and> (\<forall>r. c = PageQuery r \<and> shouldUseQueryMode s \<and> aggregations s = [] \<longrightarrow>
          include_attributes r = Some True \<and> aggregate_by r = None
          \<and> (\<exists>rb. determineRankBy E s = Some rb \<and> rank_by r = defined rb))"
proof (cases c)
  case (CountQuery r)
  then obtain flt where "r = countRequest flt"
    using assms load_CountQuery by blast
  with CountQuery show ?thesis
    by (simp add: countRequest_def emptyRequest_def)
next
  case (PageQuery r)
  with assms load_PageQuery [of r E exec nowCheck nowStore force limit page s]
  show ?thesis
    by (auto simp: queryRequest_def browseRequest_def emptyRequest_def Let_def)
qed

text \<open>
  C1. With at least one aggregation configured the compiled request is to carry
  \<^verbatim>\<open>aggregate_by\<close> and neither \<^verbatim>\<open>rank_by\<close> nor \<^verbatim>\<open>include_attributes\<close>. The load departs
  from this whenever there is no predicate and the search text is blank: whatever
  aggregations and group-by attributes are configured, its paginated request has
  \<^verbatim>\<open>rank_by\<close> \<^verbatim>\<open>["id", "asc"]\<close> and \<^verbatim>\<open>include_attributes\<close> and has neither \<^verbatim>\<open>aggregate_by\<close>
  nor \<^verbatim>\<open>group_by\<close>.
\<close>

theorem browse_load_ignores_aggregations:
  assumes "PageQuery r \<in> set (snd (loadDocuments E exec nowCheck nowStore force limit page s))"
    and "activeFilters s = []"
    and "trim (searchText s) = []"
  shows "rank_by r = Some (VArr [VStr (lit ''id''), VStr (lit ''asc'')])
    \<and> include_attributes r = Some True
    \<and> aggregate_by r = None
    \<and> group_by r = None"
proof -
  from assms(2,3) have "\<not> shouldUseQueryMode s"
    by (simp add: shouldUseQueryMode_def)
  with assms(1) load_PageQuery [of r E exec nowCheck nowStore force limit page s]
  have "r = browseRequest limit (withCursor s page None)" by blast
  then show ?thesis by (simp add: browseRequest_def emptyRequest_def)
qed

text \<open>
  The store \<open>aggregationOnlyState\<close> has the aggregation \<^verbatim>\<open>total\<close> configured, no
  predicate and no search text: a forced load of the first page sends the count sub-query
  and a paginated request with \<^verbatim>\<open>rank_by\<close> and \<^verbatim>\<open>include_attributes\<close> and without
  \<^verbatim>\<open>aggregate_by\<close>. With the same aggregation and the two predicates of \<open>groupedState\<close>
  the paginated request is the one of the claim.
\<close>

theorem browse_load_ignores_aggregations_witness:
  "aggregations aggregationOnlyState = [totalAggregation]
   \<and> activeFilters aggregationOnlyState = []
   \<and> searchText aggregationOnlyState = []
   \<and> snd (loadDocuments exampleEnv exampleBackend 0 1 True 2 1 aggregationOnlyState)
     = [CountQuery (countRequest None), PageQuery (browseRequest 2 None)]
   \<and> rank_by (browseRequest 2 None) = Some (VArr [VStr (lit ''id''), VStr (lit ''asc'')])
   \<and> include_attributes (browseRequest 2 None) = Some True
   \<and> aggregate_by (browseRequest 2 None) = None
   \<and> aggregations groupedState = [totalAggregation]
   \<and> snd (loadDocuments exampleEnv exampleBackend 0 1 True 2 1 groupedState)
     = [CountQuery (countRequest (Some filteredFilter)),
        PageQuery \<lparr> filters = Some filteredFilter, rank_by = None, top_k = Some 2,
                    include_attributes = None,
                    aggregate_by = Some [(lit ''total'', [lit ''Count''])],
                    group_by = Some [lit ''category''] \<rparr>]"
proof -
  have g: "aggregations aggregationOnlyState = [totalAggregation]" by code_simp
  have f: "activeFilters aggregationOnlyState = []" by code_simp
  have x: "searchText aggregationOnlyState = []" by code_simp
  have x': "trim (searchText aggregationOnlyState) = []" by code_simp
  have c: "snd (loadDocuments exampleEnv exampleBackend 0 1 True 2 1 aggregationOnlyState)
     = [CountQuery (countRequest None), PageQuery (browseRequest 2 None)]" by code_simp
  then have h: "PageQuery (browseRequest 2 None)
     \<in> set (snd (loadDocuments exampleEnv exampleBackend 0 1 True 2 1 aggregationOnlyState))"
    by simp
  have s: "aggregations groupedState = [totalAggregation]
   \<and> snd (loadDocuments exampleEnv exampleBackend 0 1 True 2 1 groupedState)
     = [CountQuery (countRequest (Some filteredFilter)),
        PageQuery \<lparr> filters = Some filteredFilter, rank_by = None, top_k = Some 2,
                    include_attributes = None,
                    aggregate_by = Some [(lit ''total'', [lit ''Count''])],
                    group_by = Some [lit ''category''] \<rparr>]" by code_simp
  note t = browse_load_ignores_aggregations [OF h f x']
  from t g f x c s show ?thesis by blast
qed

section \<open>Ranking source\<close>

text \<open>
  What the query branch does. In a load with an active predicate or a search text that is
  not blank, and with no aggregation configured, the \<^verbatim>\<open>rank_by\<close> of the paginated request
  is chosen in this order: (1) the converted ranking expression when the ranking mode is
  \<^verbatim>\<open>expression\<close> and an expression tree is present; otherwise (2) a BM25 ranking of the
  trimmed search text when the query mode is full-text and the trimmed search text is not
  empty; otherwise (3) \<^verbatim>\<open>[vectorField or "vector", "ANN", vector]\<close> when the query mode is
  vector and the query vector is present and not empty; otherwise (4)
  \<^verbatim>\<open>[sortAttribute or "id", direction]\<close>, where an attribute that is null or empty
  gives \<^verbatim>\<open>"id"\<close>.
\<close>

lemma query_mode_ranking_priority:
  assumes "PageQuery r \<in> set (snd (loadDocuments E exec nowCheck nowStore force limit page s))"
    and "aggregations s = []" and "shouldUseQueryMode s"
  shows "(rankingMode s = Expression \<and> rankingExpression s \<noteq> NullNode \<longrightarrow>
          rank_by r = defined (convertRankingExprToTurbopuffer (rankingExpression s)))
    \<and> (\<not> (rankingMode s = Expression \<and> rankingExpression s \<noteq> NullNode)
         \<and> queryMode s = BM25 \<and> trim (searchText s) \<noteq> [] \<longrightarrow>
          (length (bm25Fields s) > 1 \<longrightarrow>
             rank_by r = Some (VArr [VStr (bm25OperatorName (bm25Operator s)),
                                     VArr (map (fieldRank (trim (searchText s))) (bm25Fields s))]))
          \<and> (length (bm25Fields s) = 1 \<longrightarrow>
               rank_by r = Some (VArr [VStr (field (bm25Fields s ! 0)), VStr (lit ''BM25''),
                                       VStr (trim (searchText s))]))
          \<and> (bm25Fields s = [] \<longrightarrow>
               potentialBM25Fields E (attributes s) \<noteq> []
               \<and> rank_by r = Some (VArr [VStr (hd (potentialBM25Fields E (attributes s))),
                                         VStr (lit ''BM25''), VStr (trim (searchText s))])))
    \<and> (\<forall>v. \<not> (rankingMode s = Expression \<and> rankingExpression s \<noteq> NullNode)
         \<and> \<not> (queryMode s = BM25 \<and> trim (searchText s) \<noteq> [])
         \<and> queryMode s = Vector \<and> vectorQuery s = Some v \<and> v \<noteq> [] \<longrightarrow>
          rank_by r = Some (VArr [VStr (orElse (vectorField s) (lit ''vector'')), VStr (lit ''ANN''),
                                  VArr (map VNum v)]))
    \<and> (\<not> (rankingMode s = Expression \<and> rankingExpression s \<noteq> NullNode)
         \<and> \<not> (queryMode s = BM25 \<and> trim (searchText s) \<noteq> [])
         \<and> \<not> (queryMode s = Vector \<and> vectorQuery s \<noteq> None \<and> vectorQuery s \<noteq> Some []) \<longrightarrow>
          rank_by r = Some (VArr [VStr (orElse (sortAttribute s) (lit ''id'')),
                                  VStr (sortDirectionName (sortDirection s))]))"
proof -
  from assms(1,3) load_PageQuery [of r E exec nowCheck nowStore force limit page s]
  obtain rb where rb: "determineRankBy E s = Some rb"
    and r: "r = queryRequest s limit (withCursor s page (combineFilters (buildFilters E s))) rb"
    by blast
  from r assms(2) have rk: "rank_by r = defined rb"
    by (simp add: queryRequest_def emptyRequest_def)
  have vp: "vectorPresent (vectorQuery s) = (vectorQuery s \<noteq> None \<and> vectorQuery s \<noteq> Some [])"
    by (cases "vectorQuery s") auto
  show ?thesis
    using rb unfolding rk determineRankBy_def vp
    by (auto simp: bm25Rank_def defined_def split: if_splits list.splits)
qed

text \<open>
  C3. The fourth source of the ranking, the configured sort, is to be used also when there
  is no predicate and no search text. The load departs from this: whenever there is no
  predicate and the search text is blank, the \<^verbatim>\<open>rank_by\<close> of its paginated request is
  \<^verbatim>\<open>["id", "asc"]\<close>, whatever the sort attribute and direction, the ranking expression
  and the query vector are.
\<close>

theorem browse_load_ignores_sort:
  assumes "PageQuery r \<in> set (snd (loadDocuments E exec nowCheck nowStore force limit page s))"
    and "activeFilters s = []"
    and "trim (searchText s) = []"
  shows "rank_by r = Some (VArr [VStr (lit ''id''), VStr (lit ''asc'')])"
proof -
  from assms(2,3) have "\<not> shouldUseQueryMode s"
    by (simp add: shouldUseQueryMode_def)
  with assms(1) load_PageQuery [of r E exec nowCheck nowStore force limit page s]
  have "r = browseRequest limit (withCursor s page None)" by blast
  then show ?thesis by (simp add: browseRequest_def emptyRequest_def)
qed

text \<open>
  The store \<open>sortedBrowseState\<close> has the sort by \<^verbatim>\<open>name\<close>, descending, and neither
  predicate nor search text: a forced load of the first page sends a paginated request
  that ranks by \<^verbatim>\<open>["id", "asc"]\<close>. With the same sort and the two predicates of
  \<open>sortedFilteredState\<close> the request ranks by \<^verbatim>\<open>["name", "desc"]\<close>.
\<close>

theorem browse_load_ignores_sort_witness:
  "sortAttribute sortedBrowseState = Some (lit ''name'')
   \<and> sortDirection sortedBrowseState = Desc
   \<and> aggregations sortedBrowseState = []
   \<and> activeFilters sortedBrowseState = []
   \<and> searchText sortedBrowseState = []
   \<and> snd (loadDocuments exampleEnv exampleBackend 0 1 True 2 1 sortedBrowseState)
     = [CountQuery (countRequest None), PageQuery (browseRequest 2 None)]
   \<and> rank_by (browseRequest 2 None) = Some (VArr [VStr (lit ''id''), VStr (lit ''asc'')])
   \<and> sortAttribute sortedFilteredState = Some (lit ''name'')
   \<and> sortDirection sortedFilteredState = Desc
   \<and> snd (loadDocuments exampleEnv exampleBackend 0 1 True 2 1 sortedFilteredState)
     = [CountQuery (countRequest (Some filteredFilter)),
        PageQuery \<lparr> filters = Some filteredFilter,
                    rank_by = Some (VArr [VStr (lit ''name''), VStr (lit ''desc'')]),
                    top_k = Some 2, include_attributes = Some True, aggregate_by = None,
                    group_by = None \<rparr>]"
proof -
  have n: "sortAttribute sortedBrowseState = Some (lit ''name'')
           \<and> sortDirection sortedBrowseState = Desc
           \<and> aggregations sortedBrowseState = []" by code_simp
  have f: "activeFilters sortedBrowseState = []" by code_simp
  have x: "searchText sortedBrowseState = []" by code_simp
  have x': "trim (searchText sortedBrowseState) = []" by code_simp
  have c: "snd (loadDocuments exampleEnv exampleBackend 0 1 True 2 1 sortedBrowseState)
     = [CountQuery (countRequest None), PageQuery (browseRequest 2 None)]" by code_simp
  then have h: "PageQuery (browseRequest 2 None)
     \<in> set (snd (loadDocuments exampleEnv exampleBackend 0 1 True 2 1 sortedBrowseState))"
    by simp
  have s: "sortAttribute sortedFilteredState = Some (lit ''name'')
   \<and> sortDirection sortedFilteredState = Desc
   \<and> snd (loadDocuments exampleEnv exampleBackend 0 1 True 2 1 sortedFilteredState)
     = [CountQuery (countRequest (Some filteredFilter)),
        PageQuery \<lparr> filters = Some filteredFilter,
                    rank_by = Some (VArr [VStr (lit ''name''), VStr (lit ''desc'')]),
                    top_k = Some 2, include_attributes = Some True, aggregate_by = None,
                    group_by = None \<rparr>]" by code_simp
  note t = browse_load_ignores_sort [OF h f x']
  from t n f x c s show ?thesis by blast
qed

section \<open>Full-text ranking\<close>

text \<open>
  C9. In a full-text query, that is, with the query mode full-text, a search text that is
  not blank and no ranking expression in effect, the compiled ranking for the search text
  \<^verbatim>\<open>hello\<close>, the fields \<^verbatim>\<open>a\<close> and \<^verbatim>\<open>b\<close> with weight 1 and the operator \<^verbatim>\<open>sum\<close> is
  \<^verbatim>\<open>["Sum", [["a","BM25","hello"], ["b","BM25","hello"]]]\<close>. With several configured fields
  the ranking is the combination operator applied to one term for each field, in order,
  and the term of every field whose weight differs from 1 is
  \<^verbatim>\<open>["Product", [weight, [field, "BM25", text]]]\<close>, the term of a field of weight 1 is
  \<^verbatim>\<open>[field, "BM25", text]\<close>, with \<open>text\<close> the trimmed search text. The compiled ranking is
  the \<^verbatim>\<open>rank_by\<close> of the paginated request of a load with no aggregation.
\<close>

theorem bm25_multi_field_ranking:
  assumes "queryMode s = BM25"
    and "trim (searchText s) \<noteq> []"
    and "\<not> (rankingMode s = Expression \<and> rankingExpression s \<noteq> NullNode)"
  shows "(searchText s = lit ''hello''
         \<and> bm25Fields s = [\<lparr> field = lit ''a'', weight = 1 \<rparr>, \<lparr> field = lit ''b'', weight = 1 \<rparr>]
         \<and> bm25Operator s = BSum \<longrightarrow>
          determineRankBy E s
            = Some (VArr [VStr (lit ''Sum''),
                          VArr [VArr [VStr (lit ''a''), VStr (lit ''BM25''), VStr (lit ''hello'')],
                                VArr [VStr (lit ''b''), VStr (lit ''BM25''), VStr (lit ''hello'')]]]))
     \<and> (length (bm25Fields s) > 1 \<longrightarrow>
          determineRankBy E s
            = Some (VArr [VStr (bm25OperatorName (bm25Operator s)),
                          VArr (map (\<lambda>f. if weight f \<noteq> 1
                                          then VArr [VStr (lit ''Product''),
                                                     VArr [VNum (weight f),
                                                           VArr [VStr (field f), VStr (lit ''BM25''),
                                                                 VStr (trim (searchText s))]]]
                                          else VArr [VStr (field f), VStr (lit ''BM25''),
                                                     VStr (trim (searchText s))])
                                  (bm25Fields s))]))
     \<and> (\<forall>r. PageQuery r \<in> set (snd (loadDocuments E exec nowCheck nowStore force limit page s))
              \<and> aggregations s = [] \<longrightarrow>
            rank_by r = determineRankBy E s)"
proof -
  have q: "shouldUseQueryMode s"
    using assms(2) by (simp add: shouldUseQueryMode_def)
  have v: "length (bm25Fields s) > 1 \<longrightarrow>
           determineRankBy E s
             = Some (VArr [VStr (bm25OperatorName (bm25Operator s)),
                           VArr (map (fieldRank (trim (searchText s))) (bm25Fields s))])"
    using assms by (auto simp: determineRankBy_def)
  have f: "fieldRank (trim (searchText s)) =
           (\<lambda>f. if weight f \<noteq> 1
                 then VArr [VStr (lit ''Product''),
                            VArr [VNum (weight f),
                                  VArr [VStr (field f), VStr (lit ''BM25''),
                                        VStr (trim (searchText s))]]]
                 else VArr [VStr (field f), VStr (lit ''BM25''), VStr (trim (searchText s))])"
    by (intro ext) (simp add: fieldRank_def bm25Rank_def)
  have t: "trim (lit ''hello'') = lit ''hello''" by code_simp
  have first: "searchText s = lit ''hello''
         \<and> bm25Fields s = [\<lparr> field = lit ''a'', weight = 1 \<rparr>, \<lparr> field = lit ''b'', weight = 1 \<rparr>]
         \<and> bm25Operator s = BSum \<longrightarrow>
          determineRankBy E s
            = Some (VArr [VStr (lit ''Sum''),
                          VArr [VArr [VStr (lit ''a''), VStr (lit ''BM25''), VStr (lit ''hello'')],
                                VArr [VStr (lit ''b''), VStr (lit ''BM25''), VStr (lit ''hello'')]]])"
  proof (intro impI)
    assume c: "searchText s = lit ''hello''
         \<and> bm25Fields s = [\<lparr> field = lit ''a'', weight = 1 \<rparr>, \<lparr> field = lit ''b'', weight = 1 \<rparr>]
         \<and> bm25Operator s = BSum"
    then have l: "length (bm25Fields s) > 1" by simp
    from c have "trim (searchText s) = trim (lit ''hello'')" by simp
    then have tt: "trim (searchText s) = lit ''hello''" unfolding t .
    from v l have "determineRankBy E s
             = Some (VArr [VStr (bm25OperatorName (bm25Operator s)),
                           VArr (map (fieldRank (trim (searchText s))) (bm25Fields s))])"
      by blast
    then have "determineRankBy E s
             = Some (VArr [VStr (bm25OperatorName (bm25Operator s)),
                           VArr (map (fieldRank (lit ''hello'')) (bm25Fields s))])"
      unfolding tt .
    with c show "determineRankBy E s
            = Some (VArr [VStr (lit ''Sum''),
                          VArr [VArr [VStr (lit ''a''), VStr (lit ''BM25''), VStr (lit ''hello'')],
                                VArr [VStr (lit ''b''), VStr (lit ''BM25''), VStr (lit ''hello'')]]])"
      by (simp add: fieldRank_def bm25Rank_def)
  qed
  have second: "length (bm25Fields s) > 1 \<longrightarrow>
          determineRankBy E s
            = Some (VArr [VStr (bm25OperatorName (bm25Operator s)),
                          VArr (map (\<lambda>f. if weight f \<noteq> 1
                                          then VArr [VStr (lit ''Product''),
                                                     VArr [VNum (weight f),
                                                           VArr [VStr (field f), VStr (lit ''BM25''),
                                                                 VStr (trim (searchText s))]]]
                                          else VArr [VStr (field f), VStr (lit ''BM25''),
                                                     VStr (trim (searchText s))])
                                  (bm25Fields s))])"
    using v unfolding f .
  have third: "\<forall>r. PageQuery r \<in> set (snd (loadDocuments E exec nowCheck nowStore force limit page s))
              \<and> aggregations s = [] \<longrightarrow>
            rank_by r = determineRankBy E s"
  proof (intro allI impI)
    fix r
    assume h: "PageQuery r \<in> set (snd (loadDocuments E exec nowCheck nowStore force limit page s))
              \<and> aggregations s = []"
    with q load_PageQuery [of r E exec nowCheck nowStore force limit page s]
    obtain rb where rb: "determineRankBy E s = Some rb"
      and r: "r = queryRequest s limit (withCursor s page (combineFilters (buildFilters E s))) rb"
      by blast
    from r h have rk: "rank_by r = defined rb"
      by (simp add: queryRequest_def emptyRequest_def)
    from rb assms have "rb \<noteq> VUndefined"
      by (auto simp: determineRankBy_def bm25Rank_def split: if_splits list.splits)
    with rk rb show "rank_by r = determineRankBy E s" by (simp add: defined_def)
  qed
  from first second third show ?thesis by blast
qed

theorem bm25_multi_field_ranking_witness:
  "queryMode fullTextState = BM25
   \<and> searchText fullTextState = lit ''hello''
   \<and> bm25Fields fullTextState = [\<lparr> field = lit ''a'', weight = 1 \<rparr>, \<lparr> field = lit ''b'', weight = 1 \<rparr>]
   \<and> bm25Operator fullTextState = BSum
   \<and> determineRankBy exampleEnv fullTextState
       = Some (VArr [VStr (lit ''Sum''),
                     VArr [VArr [VStr (lit ''a''), VStr (lit ''BM25''), VStr (lit ''hello'')],
                           VArr [VStr (lit ''b''), VStr (lit ''BM25''), VStr (lit ''hello'')]]])
   \<and> PageQuery fullTextRequest
       \<in> set (snd (loadDocuments exampleEnv exampleBackend 0 1 True 2 1 fullTextState))
   \<and> rank_by fullTextRequest = determineRankBy exampleEnv fullTextState
   \<and> bm25Fields weightedTextState = [\<lparr> field = lit ''a'', weight = 2 \<rparr>, \<lparr> field = lit ''b'', weight = 1 \<rparr>]
   \<and> determineRankBy exampleEnv weightedTextState
       = Some (VArr [VStr (lit ''Max''),
                     VArr [VArr [VStr (lit ''Product''),
                                 VArr [VNum 2,
                                       VArr [VStr (lit ''a''), VStr (lit ''BM25''), VStr (lit ''hello'')]]],
                           VArr [VStr (lit ''b''), VStr (lit ''BM25''), VStr (lit ''hello'')]]])"
proof -
  have m: "queryMode fullTextState = BM25" by code_simp
  have x: "trim (searchText fullTextState) \<noteq> []" by code_simp
  have e: "\<not> (rankingMode fullTextState = Expression \<and> rankingExpression fullTextState \<noteq> NullNode)"
    by code_simp
  have c: "searchText fullTextState = lit ''hello''
     \<and> bm25Fields fullTextState = [\<lparr> field = lit ''a'', weight = 1 \<rparr>, \<lparr> field = lit ''b'', weight = 1 \<rparr>]
     \<and> bm25Operator fullTextState = BSum" by code_simp
  have h: "PageQuery fullTextRequest
     \<in> set (snd (loadDocuments exampleEnv exampleBackend 0 1 True 2 1 fullTextState))"
    by code_simp
  have a: "aggregations fullTextState = []" by code_simp
  note t = bm25_multi_field_ranking [OF m x e, of exampleEnv exampleBackend 0 1 True 2 1]
  from t c have k1: "determineRankBy exampleEnv fullTextState
       = Some (VArr [VStr (lit ''Sum''),
                     VArr [VArr [VStr (lit ''a''), VStr (lit ''BM25''), VStr (lit ''hello'')],
                           VArr [VStr (lit ''b''), VStr (lit ''BM25''), VStr (lit ''hello'')]]])"
    by blast
  from t h a have k2: "rank_by fullTextRequest = determineRankBy exampleEnv fullTextState"
    by blast
  have m': "queryMode weightedTextState = BM25" by code_simp
  have x': "trim (searchText weightedTextState) \<noteq> []" by code_simp
  have e': "\<not> (rankingMode weightedTextState = Expression
                \<and> rankingExpression weightedTextState \<noteq> NullNode)"
    by code_simp
  have l': "length (bm25Fields weightedTextState) > 1" by code_simp
  have b': "bm25Fields weightedTextState
              = [\<lparr> field = lit ''a'', weight = 2 \<rparr>, \<lparr> field = lit ''b'', weight = 1 \<rparr>]"
    by code_simp
  have v': "VArr [VStr (bm25OperatorName (bm25Operator weightedTextState)),
                  VArr (map (\<lambda>f. if weight f \<noteq> 1
                                  then VArr [VStr (lit ''Product''),
                                             VArr [VNum (weight f),
                                                   VArr [VStr (field f), VStr (lit ''BM25''),
                                                         VStr (trim (searchText weightedTextState))]]]
                                  else VArr [VStr (field f), VStr (lit ''BM25''),
                                             VStr (trim (searchText weightedTextState))])
                          (bm25Fields weightedTextState))]
            = VArr [VStr (lit ''Max''),
                     VArr [VArr [VStr (lit ''Product''),
                                 VArr [VNum 2,
                                       VArr [VStr (lit ''a''), VStr (lit ''BM25''), VStr (lit ''hello'')]]],
                           VArr [VStr (lit ''b''), VStr (lit ''BM25''), VStr (lit ''hello'')]]]"
    by code_simp
  note t' = bm25_multi_field_ranking [OF m' x' e', of exampleEnv exampleBackend 0 1 True 2 1]
  from t' l' have "determineRankBy exampleEnv weightedTextState
       = Some (VArr [VStr (bm25OperatorName (bm25Operator weightedTextState)),
                  VArr (map (\<lambda>f. if weight f \<noteq> 1
                                  then VArr [VStr (lit ''Product''),
                                             VArr [VNum (weight f),
                                                   VArr [VStr (field f), VStr (lit ''BM25''),
                                                         VStr (trim (searchText weightedTextState))]]]
                                  else VArr [VStr (field f), VStr (lit ''BM25''),
                                             VStr (trim (searchText weightedTextState))])
                          (bm25Fields weightedTextState))])"
    by blast
  then have k3: "determineRankBy exampleEnv weightedTextState
       = Some (VArr [VStr (lit ''Max''),
                     VArr [VArr [VStr (lit ''Product''),
                                 VArr [VNum 2,
                                       VArr [VStr (lit ''a''), VStr (lit ''BM25''), VStr (lit ''hello'')]]],
                           VArr [VStr (lit ''b''), VStr (lit ''BM25''), VStr (lit ''hello'')]]])"
    unfolding v' .
  from m c k1 h k2 b' k3 show ?thesis by blast
qed

section \<open>The aggregation that is sent\<close>

text \<open>
  What the query branch does. In a load with an active predicate or a search text that is
  not blank and a non-empty aggregation list, the \<^verbatim>\<open>aggregate_by\<close> object of the
  paginated request has exactly one entry, the name of the first aggregation mapped to
  \<^verbatim>\<open>["Count"]\<close>; wherever a paginated request carries \<^verbatim>\<open>aggregate_by\<close> it is this
  object. The aggregations after the first and the other settings of an aggregation have
  no effect on the requests: a list with the first name alone and any settings gives the
  same calls.
\<close>

lemma query_mode_first_aggregation:
  assumes "aggregations s = a # others"
  shows "(\<forall>r. PageQuery r \<in> set (snd (loadDocuments E exec nowCheck nowStore force limit page s)) \<longrightarrow>
            (shouldUseQueryMode s \<longrightarrow> aggregate_by r = Some [(agg_name a, [lit ''Count''])])
            \<and> (\<forall>ab. aggregate_by r = Some ab \<longrightarrow> ab = [(agg_name a, [lit ''Count''])]))
     \<and> snd (loadDocuments E exec nowCheck nowStore force limit page
              (s \<lparr> aggregations := [\<lparr> agg_name = agg_name a, agg_settings = cfg \<rparr>] \<rparr>))
       = snd (loadDocuments E exec nowCheck nowStore force limit page s)"
proof -
  let ?s' = "s \<lparr> aggregations := [\<lparr> agg_name = agg_name a, agg_settings = cfg \<rparr>] \<rparr>"
  have first: "\<forall>r. PageQuery r \<in> set (snd (loadDocuments E exec nowCheck nowStore force limit page s)) \<longrightarrow>
            (shouldUseQueryMode s \<longrightarrow> aggregate_by r = Some [(agg_name a, [lit ''Count''])])
            \<and> (\<forall>ab. aggregate_by r = Some ab \<longrightarrow> ab = [(agg_name a, [lit ''Count''])])"
  proof (intro allI impI)
    fix r
    assume "PageQuery r \<in> set (snd (loadDocuments E exec nowCheck nowStore force limit page s))"
    from load_PageQuery [OF this] assms
    show "(shouldUseQueryMode s \<longrightarrow> aggregate_by r = Some [(agg_name a, [lit ''Count''])])
            \<and> (\<forall>ab. aggregate_by r = Some ab \<longrightarrow> ab = [(agg_name a, [lit ''Count''])])"
      by (auto simp: queryRequest_def browseRequest_def emptyRequest_def)
  qed
  have f: "buildFilters E ?s' = buildFilters E s"
    by (simp add: buildFilters_def)
  have d: "determineRankBy E ?s' = determineRankBy E s"
    by (simp add: determineRankBy_def split: list.splits)
  have w: "withCursor ?s' page = withCursor s page"
    by (rule ext) (simp add: withCursor_def Let_def)
  have q: "queryRequest ?s' limit = queryRequest s limit"
    using assms by (intro ext) (simp add: queryRequest_def)
  have c: "cachedEntry E ?s' nowCheck force limit page = cachedEntry E s nowCheck force limit page"
    by (simp add: cachedEntry_def cacheKey_def)
  have m: "shouldUseQueryMode ?s' = shouldUseQueryMode s"
    by (simp add: shouldUseQueryMode_def)
  have second: "snd (loadDocuments E exec nowCheck nowStore force limit page ?s')
       = snd (loadDocuments E exec nowCheck nowStore force limit page s)"
    unfolding snd_loadDocuments snd_queryBranch snd_browseBranch f d w q c m
    by simp
  from first second show ?thesis by blast
qed

text \<open>
  C10. With a non-empty aggregation list the emitted \<^verbatim>\<open>aggregate_by\<close> object is to hold
  one entry, the name of the first aggregation mapped to \<^verbatim>\<open>["Count"]\<close>. The load departs
  from this whenever there is no predicate and the search text is blank: no request it
  sends carries that object; the paginated request has no \<^verbatim>\<open>aggregate_by\<close> at all.
\<close>

theorem browse_load_sends_no_aggregate_by:
  assumes "c \<in> set (snd (loadDocuments E exec nowCheck nowStore force limit page s))"
    and "activeFilters s = []"
    and "trim (searchText s) = []"
    and "aggregations s = a # others"
  shows "aggregate_by (sent c) \<noteq> Some [(agg_name a, [lit ''Count''])]
    \<and> (\<forall>r. c = PageQuery r \<longrightarrow> aggregate_by r = None)"
proof (cases c)
  case (CountQuery r)
  then obtain flt where "r = countRequest flt"
    using assms(1) load_CountQuery by blast
  with CountQuery show ?thesis
    by (simp add: countRequest_def emptyRequest_def lit_def)
next
  case (PageQuery r)
  from assms(2,3) have "\<not> shouldUseQueryMode s"
    by (simp add: shouldUseQueryMode_def)
  with assms(1) PageQuery load_PageQuery [of r E exec nowCheck nowStore force limit page s]
  have "r = browseRequest limit (withCursor s page None)" by blast
  with PageQuery show ?thesis by (simp add: browseRequest_def emptyRequest_def)
qed

text \<open>
  The store \<open>twoAggregationsState\<close> has the aggregations \<^verbatim>\<open>total\<close> and \<^verbatim>\<open>mean\<close>, no
  predicate and no search text: in a forced load of the first page the count sub-query
  counts the identifiers and the paginated request has no \<^verbatim>\<open>aggregate_by\<close>. With the
  same list and the two predicates of \<open>filteredTwoAggregationsState\<close> the paginated
  request has the one entry of the claim.
\<close>

theorem browse_load_sends_no_aggregate_by_witness:
  "aggregations twoAggregationsState = [totalAggregation, meanAggregation]
   \<and> agg_name totalAggregation = lit ''total''
   \<and> activeFilters twoAggregationsState = []
   \<and> searchText twoAggregationsState = []
   \<and> snd (loadDocuments exampleEnv exampleBackend 0 1 True 2 1 twoAggregationsState)
     = [CountQuery (countRequest None), PageQuery (browseRequest 2 None)]
   \<and> aggregate_by (countRequest None) = Some [(lit ''count'', [lit ''Count'', lit ''id''])]
   \<and> aggregate_by (browseRequest 2 None) = None
   \<and> aggregations filteredTwoAggregationsState = [totalAggregation, meanAggregation]
   \<and> map (\<lambda>c. aggregate_by (sent c))
         (snd (loadDocuments exampleEnv exampleBackend 0 1 True 2 1 filteredTwoAggregationsState))
     = [Some [(lit ''count'', [lit ''Count'', lit ''id''])],
        Some [(lit ''total'', [lit ''Count''])]]"
proof -
  have g: "aggregations twoAggregationsState = totalAggregation # [meanAggregation]"
    by code_simp
  have n: "agg_name totalAggregation = lit ''total''" by code_simp
  have f: "activeFilters twoAggregationsState = []" by code_simp
  have x: "searchText twoAggregationsState = []" by code_simp
  have x': "trim (searchText twoAggregationsState) = []" by code_simp
  have c: "snd (loadDocuments exampleEnv exampleBackend 0 1 True 2 1 twoAggregationsState)
     = [CountQuery (countRequest None), PageQuery (browseRequest 2 None)]" by code_simp
  then have h: "PageQuery (browseRequest 2 None)
     \<in> set (snd (loadDocuments exampleEnv exampleBackend 0 1 True 2 1 twoAggregationsState))"
    by simp
  have k: "aggregate_by (countRequest None) = Some [(lit ''count'', [lit ''Count'', lit ''id''])]"
    by code_simp
  have s: "aggregations filteredTwoAggregationsState = [totalAggregation, meanAggregation]
   \<and> map (\<lambda>c. aggregate_by (sent c))
         (snd (loadDocuments exampleEnv exampleBackend 0 1 True 2 1 filteredTwoAggregationsState))
     = [Some [(lit ''count'', [lit ''Count'', lit ''id''])],
        Some [(lit ''total'', [lit ''Count''])]]" by code_simp
  note t = browse_load_sends_no_aggregate_by [OF h f x' g]
  from t have "aggregate_by (browseRequest 2 None) = None" by blast
  with g n f x c k s show ?thesis by simp
qed

section \<open>What a load changes\<close>

lemma map_of_mapSet:
  "map_of (mapSet m k v) k' = (if k' = k then Some v else map_of m k')"
  by (induction m) auto

lemma queryBranch_Returned:
  "fst (queryBranch E exec limit page s cur) = Returned st \<Longrightarrow>
   st = cur \<lparr> error := Some noTextFieldsMessage, isLoading := False \<rparr>"
  by (auto simp: queryBranch_def Let_def split: sum.splits option.splits)

lemma queryBranch_Loaded:
  "fst (queryBranch E exec limit page s cur) = Loaded st docs tc \<Longrightarrow>
   \<exists>parsed g. st = (updatePagination page docs cur)
                      \<lparr> aggregationResults := parsed, aggregationGroups := g \<rparr>"
  by (auto simp: queryBranch_def Let_def split: sum.splits option.splits)

lemma browseBranch_Returned:
  "fst (browseBranch exec force limit page s cur) \<noteq> Returned st"
  by (auto simp: browseBranch_def Let_def split: sum.splits option.splits if_splits)

lemma browseBranch_Loaded:
  "fst (browseBranch exec force limit page s cur) = Loaded st docs tc \<Longrightarrow>
   st = updatePagination page docs cur"
  by (auto simp: browseBranch_def Let_def split: sum.splits option.splits if_splits)

lemma branch_Returned:
  assumes "fst (if q then queryBranch E exec limit page s cur
                else browseBranch exec force limit page s cur) = Returned st"
  shows "st = cur \<lparr> error := Some noTextFieldsMessage, isLoading := False \<rparr>"
  using assms by (auto dest: queryBranch_Returned simp: browseBranch_Returned split: if_splits)

lemma branch_Loaded:
  assumes "fst (if q then queryBranch E exec limit page s cur
                else browseBranch exec force limit page s cur) = Loaded st docs tc"
  shows "\<exists>parsed g. st = (updatePagination page docs cur)
                      \<lparr> aggregationResults := parsed, aggregationGroups := g \<rparr>"
proof (cases q)
  case True
  with assms show ?thesis by (auto dest: queryBranch_Loaded)
next
  case False
  with assms have "st = updatePagination page docs cur"
    by (auto dest: browseBranch_Loaded)
  then have "st = (updatePagination page docs cur)
                      \<lparr> aggregationResults := aggregationResults st,
                        aggregationGroups := aggregationGroups st \<rparr>"
    by simp
  then show ?thesis by blast
qed

lemma discover_Some:
  assumes "discoverAttributesFromDocuments E docs s = Some st"
  shows "\<exists>attrs. st = s \<lparr> attributes := attrs \<rparr>"
proof (cases "length docs = 0")
  case True
  with assms have "st = s \<lparr> attributes := attributes s \<rparr>"
    by (simp add: discoverAttributesFromDocuments_def)
  then show ?thesis by blast
next
  case False
  with assms show ?thesis
    by (auto simp: discoverAttributesFromDocuments_def split: option.splits)
qed

lemma loadDocuments_refused:
  assumes "\<not> admitted E s"
  shows "loadDocuments E exec nowCheck nowStore force limit page s = (s, [])
    \<or> (\<exists>m. loadDocuments E exec nowCheck nowStore force limit page s = (s \<lparr> error := m \<rparr>, []))"
  using assms by (auto simp: loadDocuments_def admitted_def)

lemma loadDocuments_hit:
  assumes "admitted E s" and "cachedEntry E s nowCheck force limit page = Some en"
  shows "loadDocuments E exec nowCheck nowStore force limit page s
           = (s \<lparr> documents := c_documents en, totalCount := c_totalCount en,
                   currentPage := page \<rparr>, [])
    \<or> (\<exists>attrs. loadDocuments E exec nowCheck nowStore force limit page s
           = (s \<lparr> documents := c_documents en, totalCount := c_totalCount en,
                   currentPage := page, attributes := attrs \<rparr>, []))"
proof (cases "discoverAttributesFromDocuments E (c_documents en)
                (s \<lparr> documents := c_documents en, totalCount := c_totalCount en,
                     currentPage := page \<rparr>)")
  case None
  with assms show ?thesis by (simp add: loadDocuments_def admitted_def)
next
  case (Some st)
  from discover_Some [OF Some] obtain attrs where
    st: "st = s \<lparr> documents := c_documents en, totalCount := c_totalCount en,
                  currentPage := page, attributes := attrs \<rparr>" by auto
  from Some assms have "loadDocuments E exec nowCheck nowStore force limit page s = (st, [])"
    by (simp add: loadDocuments_def admitted_def)
  with st show ?thesis by blast
qed

lemma loadDocuments_stored:
  assumes a: "admitted E s" and n: "cachedEntry E s nowCheck force limit page = None"
    and l: "fst (if shouldUseQueryMode s
                 then queryBranch E exec limit page s
                        (s \<lparr> isLoading := True, error := None,
                             pageSize := (if limit \<noteq> pageSize s then limit else pageSize s) \<rparr>)
                 else browseBranch exec force limit page s
                        (s \<lparr> isLoading := True, error := None,
                             pageSize := (if limit \<noteq> pageSize s then limit else pageSize s) \<rparr>))
            = Loaded st docs tc"
  shows "\<exists>attrs err.
           fst (loadDocuments E exec nowCheck nowStore force limit page s)
             = st \<lparr> documents := docs, totalCount := tc, currentPage := page,
                    unfilteredTotalCount :=
                      (if \<not> shouldUseQueryMode s \<and> tc \<noteq> VNull
                       then tc else unfilteredTotalCount st),
                    documentsCache :=
                      mapSet (documentsCache st) (cacheKey E s page limit)
                        \<lparr> c_documents = docs, c_totalCount = tc, c_timestamp = nowStore \<rparr>,
                    attributes := attrs, error := err, isLoading := False \<rparr>"
proof -
  let ?stored = "st \<lparr> documents := docs, totalCount := tc, currentPage := page,
                    unfilteredTotalCount :=
                      (if \<not> shouldUseQueryMode s \<and> tc \<noteq> VNull
                       then tc else unfilteredTotalCount st),
                    documentsCache :=
                      mapSet (documentsCache st) (cacheKey E s page limit)
                        \<lparr> c_documents = docs, c_totalCount = tc, c_timestamp = nowStore \<rparr> \<rparr>"
  have f: "fst (loadDocuments E exec nowCheck nowStore force limit page s)
             = (case discoverAttributesFromDocuments E docs ?stored of
                  None \<Rightarrow> ?stored \<lparr> error := Some (notExtensibleMessage E) \<rparr>
                | Some st' \<Rightarrow> st') \<lparr> isLoading := False \<rparr>"
    using l unfolding loadDocuments_fetch [OF a n] by (simp add: Let_def)
  show ?thesis
  proof (cases "discoverAttributesFromDocuments E docs ?stored")
    case None
    then have "fst (loadDocuments E exec nowCheck nowStore force limit page s)
                 = ?stored \<lparr> attributes := attributes st,
                             error := Some (notExtensibleMessage E), isLoading := False \<rparr>"
      unfolding f by simp
    then show ?thesis by blast
  next
    case (Some st')
    from discover_Some [OF Some] obtain attrs where "st' = ?stored \<lparr> attributes := attrs \<rparr>"
      by blast
    with Some have "fst (loadDocuments E exec nowCheck nowStore force limit page s)
                 = ?stored \<lparr> attributes := attrs, error := error st, isLoading := False \<rparr>"
      unfolding f by simp
    then show ?thesis by blast
  qed
qed

lemma load_sameConfig:
  "sameConfig s (fst (loadDocuments E exec nowCheck nowStore force limit page s))"
proof (cases "admitted E s")
  case False
  from loadDocuments_refused [OF False, of exec nowCheck nowStore force limit page]
  show ?thesis by (auto simp: sameConfig_def)
next
  case a: True
  let ?cur = "s \<lparr> isLoading := True, error := None,
                   pageSize := (if limit \<noteq> pageSize s then limit else pageSize s) \<rparr>"
  let ?branch = "if shouldUseQueryMode s
                 then queryBranch E exec limit page s ?cur
                 else browseBranch exec force limit page s ?cur"
  show ?thesis
  proof (cases "cachedEntry E s nowCheck force limit page")
    case (Some en)
    from loadDocuments_hit [OF a Some, of exec nowStore]
    show ?thesis by (auto simp: sameConfig_def)
  next
    case n: None
    show ?thesis
    proof (cases "fst ?branch")
      case (Threw e)
      then show ?thesis
        unfolding loadDocuments_fetch [OF a n] by (simp add: Let_def sameConfig_def)
    next
      case (Returned st)
      from branch_Returned [OF Returned] Returned show ?thesis
        unfolding loadDocuments_fetch [OF a n] by (simp add: Let_def sameConfig_def)
    next
      case (Loaded st docs tc)
      from branch_Loaded [OF Loaded] obtain parsed g where
        st: "st = (updatePagination page docs ?cur)
                \<lparr> aggregationResults := parsed, aggregationGroups := g \<rparr>" by blast
      from loadDocuments_stored [OF a n Loaded, of nowStore] obtain attrs err where
        "fst (loadDocuments E exec nowCheck nowStore force limit page s)
             = st \<lparr> documents := docs, totalCount := tc, currentPage := page,
                    unfilteredTotalCount :=
                      (if \<not> shouldUseQueryMode s \<and> tc \<noteq> VNull
                       then tc else unfilteredTotalCount st),
                    documentsCache :=
                      mapSet (documentsCache st) (cacheKey E s page limit)
                        \<lparr> c_documents = docs, c_totalCount = tc, c_timestamp = nowStore \<rparr>,
                    attributes := attrs, error := err, isLoading := False \<rparr>" by blast
      with st show ?thesis
        by (simp add: Let_def sameConfig_def updatePagination_def)
    qed
  qed
qed

lemma branch_Loaded_elim:
  assumes "fst (if shouldUseQueryMode s then queryBranch E exec limit page s cur
                else browseBranch exec force limit page s cur) = Loaded st docs tc"
  shows "\<exists>q res. pageRequest E s limit page = Some q \<and> exec q = Inr res \<and> docs = rowsOf res
           \<and> (shouldUseQueryMode s \<longrightarrow> parseAggregations (aggregations_of res) \<noteq> None)
           \<and> PageQuery q \<in> set (snd (if shouldUseQueryMode s
                                        then queryBranch E exec limit page s cur
                                        else browseBranch exec force limit page s cur))"
  using assms
  by (auto simp: pageRequest_def queryBranch_def browseBranch_def Let_def
      split: sum.splits option.splits if_splits)

lemma branch_Loaded_intro:
  assumes "pageRequest E s limit page = Some q" and "exec q = Inr res"
    and "shouldUseQueryMode s \<longrightarrow> parseAggregations (aggregations_of res) \<noteq> None"
    and "\<forall>q'. \<exists>r. exec q' = Inr r"
  shows "\<exists>st tc. fst (if shouldUseQueryMode s then queryBranch E exec limit page s cur
                       else browseBranch exec force limit page s cur)
                   = Loaded st (rowsOf res) tc
           \<and> PageQuery q \<in> set (snd (if shouldUseQueryMode s
                                        then queryBranch E exec limit page s cur
                                        else browseBranch exec force limit page s cur))"
proof (cases "shouldUseQueryMode s")
  case True
  from assms(4) obtain cr where
    cr: "exec (countRequest (combineFilters (buildFilters E s))) = Inr cr" by blast
  from True assms(1) obtain rb where rb: "determineRankBy E s = Some rb"
    and q: "q = queryRequest s limit (withCursor s page (combineFilters (buildFilters E s))) rb"
    by (auto simp: pageRequest_def)
  from True assms(3) obtain parsed where p: "parseAggregations (aggregations_of res) = Some parsed"
    by auto
  from assms(2) q have e: "exec (queryRequest s limit
      (withCursor s page (combineFilters (buildFilters E s))) rb) = Inr res" by simp
  show ?thesis
    using True cr rb e p q by (simp add: queryBranch_def Let_def)
next
  case False
  from assms(4) obtain cr where cr: "exec (countRequest None) = Inr cr" by blast
  from False assms(1) have q: "q = browseRequest limit (withCursor s page None)"
    by (simp add: pageRequest_def)
  with assms(2) have e: "exec (browseRequest limit (withCursor s page None)) = Inr res" by simp
  show ?thesis
    using False cr e q by (simp add: browseBranch_def Let_def)
qed

lemma fetch_Loaded:
  assumes a: "admitted E s" and n: "cachedEntry E s nowCheck force limit page = None"
    and l: "fst (if shouldUseQueryMode s
                 then queryBranch E exec limit page s
                        (s \<lparr> isLoading := True, error := None,
                             pageSize := (if limit \<noteq> pageSize s then limit else pageSize s) \<rparr>)
                 else browseBranch exec force limit page s
                        (s \<lparr> isLoading := True, error := None,
                             pageSize := (if limit \<noteq> pageSize s then limit else pageSize s) \<rparr>))
            = Loaded st docs tc"
  shows "documents (fst (loadDocuments E exec nowCheck nowStore force limit page s)) = docs
    \<and> currentPage (fst (loadDocuments E exec nowCheck nowStore force limit page s)) = page
    \<and> previousCursors (fst (loadDocuments E exec nowCheck nowStore force limit page s))
        = previousCursors (updatePagination page docs s)
    \<and> (\<exists>en. map_of (documentsCache (fst (loadDocuments E exec nowCheck nowStore force limit page s)))
               (cacheKey E s page limit) = Some en \<and> c_documents en = docs)"
proof -
  from branch_Loaded [OF l] obtain parsed g where
    st: "st = (updatePagination page docs
             (s \<lparr> isLoading := True, error := None,
                  pageSize := (if limit \<noteq> pageSize s then limit else pageSize s) \<rparr>))
                \<lparr> aggregationResults := parsed, aggregationGroups := g \<rparr>" by blast
  from loadDocuments_stored [OF a n l, of nowStore] obtain attrs err where
    "fst (loadDocuments E exec nowCheck nowStore force limit page s)
         = st \<lparr> documents := docs, totalCount := tc, currentPage := page,
                unfilteredTotalCount :=
                  (if \<not> shouldUseQueryMode s \<and> tc \<noteq> VNull
                   then tc else unfilteredTotalCount st),
                documentsCache :=
                  mapSet (documentsCache st) (cacheKey E s page limit)
                    \<lparr> c_documents = docs, c_totalCount = tc, c_timestamp = nowStore \<rparr>,
                attributes := attrs, error := err, isLoading := False \<rparr>" by blast
  with st show ?thesis
    by (simp add: Let_def updatePagination_def map_of_mapSet)
qed

lemma fetch_success_Loaded:
  assumes a: "admitted E s" and n: "cachedEntry E s nowCheck force limit page = None"
    and e: "error (fst (loadDocuments E exec nowCheck nowStore force limit page s)) = None"
  shows "\<exists>st docs tc.
           fst (if shouldUseQueryMode s
                then queryBranch E exec limit page s
                       (s \<lparr> isLoading := True, error := None,
                            pageSize := (if limit \<noteq> pageSize s then limit else pageSize s) \<rparr>)
                else browseBranch exec force limit page s
                       (s \<lparr> isLoading := True, error := None,
                            pageSize := (if limit \<noteq> pageSize s then limit else pageSize s) \<rparr>))
           = Loaded st docs tc"
proof -
  let ?cur = "s \<lparr> isLoading := True, error := None,
                   pageSize := (if limit \<noteq> pageSize s then limit else pageSize s) \<rparr>"
  let ?branch = "if shouldUseQueryMode s
                 then queryBranch E exec limit page s ?cur
                 else browseBranch exec force limit page s ?cur"
  show ?thesis
  proof (cases "fst ?branch")
    case (Threw x)
    with e show ?thesis
      unfolding loadDocuments_fetch [OF a n] by (simp add: Let_def)
  next
    case (Returned st)
    from branch_Returned [OF Returned] Returned e show ?thesis
      unfolding loadDocuments_fetch [OF a n] by (simp add: Let_def)
  next
    case (Loaded st docs tc)
    then show ?thesis by blast
  qed
qed

lemma load_bookkeeping:
  "(currentPage (fst (loadDocuments E exec nowCheck nowStore force limit page s)) = currentPage s
      \<or> currentPage (fst (loadDocuments E exec nowCheck nowStore force limit page s)) = page)
   \<and> (\<not> isLoading s \<longrightarrow>
         \<not> isLoading (fst (loadDocuments E exec nowCheck nowStore force limit page s)))
   \<and> (\<forall>k. k \<noteq> cacheKey E s page limit \<longrightarrow>
         map_of (documentsCache (fst (loadDocuments E exec nowCheck nowStore force limit page s))) k
           = map_of (documentsCache s) k)"
proof (cases "admitted E s")
  case False
  from loadDocuments_refused [OF False, of exec nowCheck nowStore force limit page]
  show ?thesis by auto
next
  case a: True
  let ?cur = "s \<lparr> isLoading := True, error := None,
                   pageSize := (if limit \<noteq> pageSize s then limit else pageSize s) \<rparr>"
  let ?branch = "if shouldUseQueryMode s
                 then queryBranch E exec limit page s ?cur
                 else browseBranch exec force limit page s ?cur"
  show ?thesis
  proof (cases "cachedEntry E s nowCheck force limit page")
    case (Some en)
    from loadDocuments_hit [OF a Some, of exec nowStore]
    show ?thesis by auto
  next
    case n: None
    show ?thesis
    proof (cases "fst ?branch")
      case (Threw e)
      then show ?thesis
        unfolding loadDocuments_fetch [OF a n] by (simp add: Let_def)
    next
      case (Returned st)
      from branch_Returned [OF Returned] Returned show ?thesis
        unfolding loadDocuments_fetch [OF a n] by (simp add: Let_def)
    next
      case (Loaded st docs tc)
      from branch_Loaded [OF Loaded] obtain parsed g where
        st: "st = (updatePagination page docs ?cur)
                \<lparr> aggregationResults := parsed, aggregationGroups := g \<rparr>" by blast
      from loadDocuments_stored [OF a n Loaded, of nowStore] obtain attrs err where
        "fst (loadDocuments E exec nowCheck nowStore force limit page s)
             = st \<lparr> documents := docs, totalCount := tc, currentPage := page,
                    unfilteredTotalCount :=
                      (if \<not> shouldUseQueryMode s \<and> tc \<noteq> VNull
                       then tc else unfilteredTotalCount st),
                    documentsCache :=
                      mapSet (documentsCache st) (cacheKey E s page limit)
                        \<lparr> c_documents = docs, c_totalCount = tc, c_timestamp = nowStore \<rparr>,
                    attributes := attrs, error := err, isLoading := False \<rparr>" by blast
      with st show ?thesis
        by (simp add: Let_def updatePagination_def map_of_mapSet)
    qed
  qed
qed

lemma load_admitted:
  assumes "admitted E s"
  shows "admitted E (fst (loadDocuments E exec nowCheck nowStore force limit page s))"
  using assms load_sameConfig [of s E exec nowCheck nowStore force limit page]
    load_bookkeeping [of E exec nowCheck nowStore force limit page s]
  by (simp add: admitted_def sameConfig_def)

lemma sameConfig_cacheKey:
  "sameConfig s s' \<Longrightarrow> cacheKey E s' page limit = cacheKey E s page limit"
  by (simp add: sameConfig_def cacheKey_def)

lemma sameConfig_shouldUseQueryMode:
  "sameConfig s s' \<Longrightarrow> shouldUseQueryMode s' = shouldUseQueryMode s"
  by (simp add: sameConfig_def shouldUseQueryMode_def)

lemma sameConfig_trans:
  "sameConfig s s' \<Longrightarrow> sameConfig s' t \<Longrightarrow> sameConfig s t"
  by (simp add: sameConfig_def)

lemma withCursor_first:
  "1 \<le> currentPage s \<Longrightarrow> withCursor s 1 base = base"
  by (simp add: withCursor_def Let_def)

lemma cacheKey_pages_differ:
  "cacheKey E s 1 limit \<noteq> cacheKey E s 2 limit"
proof -
  have a: "showInt 1 = (lit ''1'')" by code_simp
  have b: "showInt 2 = (lit ''2'')" by code_simp
  show ?thesis by (simp add: cacheKey_def a b lit_def)
qed

lemma pageRequest_first:
  assumes "sameConfig s s'" and "1 \<le> currentPage s" and "1 \<le> currentPage s'"
    and "buildFilters E s' = buildFilters E s" and "determineRankBy E s' = determineRankBy E s"
  shows "pageRequest E s' limit 1 = pageRequest E s limit 1"
proof -
  have q: "\<And>f. queryRequest s' limit f = queryRequest s limit f"
    using assms(1) by (intro ext) (simp add: queryRequest_def sameConfig_def)
  show ?thesis
    using assms sameConfig_shouldUseQueryMode [OF assms(1)]
    by (simp add: pageRequest_def withCursor_first q)
qed

lemma pageRequest_first_filters:
  assumes "pageRequest E s limit 1 = Some q" and "1 \<le> currentPage s"
  shows "filters q = (if shouldUseQueryMode s then combineFilters (buildFilters E s) else None)"
  using assms
  by (auto simp: pageRequest_def withCursor_first queryRequest_def browseRequest_def
      emptyRequest_def Let_def split: if_splits)

lemma cache_hit:
  assumes "admitted E s" and "cachedEntry E s nowCheck force limit page = Some en"
  shows "documents (fst (loadDocuments E exec nowCheck nowStore force limit page s)) = c_documents en
    \<and> snd (loadDocuments E exec nowCheck nowStore force limit page s) = []
    \<and> map_of (documentsCache s) (cacheKey E s page limit) = Some en"
proof -
  from assms(2) have "map_of (documentsCache s) (cacheKey E s page limit) = Some en"
    by (auto simp: cachedEntry_def split: if_splits option.splits)
  with loadDocuments_hit [OF assms, of exec nowStore] show ?thesis by auto
qed

section \<open>A rejected call\<close>

text \<open>
  C8. When a call of a load to the execution capability is rejected, the resulting state
  has the error field set to the message of the error (to a fixed message when the
  thrown value is not an \<^verbatim>\<open>Error\<close>), \<^verbatim>\<open>isLoading\<close> false, and \<^verbatim>\<open>documents\<close>,
  \<^verbatim>\<open>totalCount\<close>, \<^verbatim>\<open>currentPage\<close>, \<^verbatim>\<open>previousCursors\<close> and \<^verbatim>\<open>nextCursor\<close> as they were
  before the load.
\<close>

theorem rejected_call_keeps_results:
  assumes "c \<in> set (snd (loadDocuments E exec nowCheck nowStore force limit page s))"
    and "exec (sent c) = Inl e"
  shows "error (fst (loadDocuments E exec nowCheck nowStore force limit page s))
           = Some (errorMessage e)
    \<and> (\<forall>m. e = ErrorInstance m \<longrightarrow>
          error (fst (loadDocuments E exec nowCheck nowStore force limit page s)) = Some m)
    \<and> \<not> isLoading (fst (loadDocuments E exec nowCheck nowStore force limit page s))
    \<and> documents (fst (loadDocuments E exec nowCheck nowStore force limit page s)) = documents s
    \<and> totalCount (fst (loadDocuments E exec nowCheck nowStore force limit page s)) = totalCount s
    \<and> currentPage (fst (loadDocuments E exec nowCheck nowStore force limit page s)) = currentPage s
    \<and> previousCursors (fst (loadDocuments E exec nowCheck nowStore force limit page s))
        = previousCursors s
    \<and> nextCursor (fst (loadDocuments E exec nowCheck nowStore force limit page s)) = nextCursor s"
proof -
  let ?cur = "s \<lparr> isLoading := True, error := None,
                   pageSize := (if limit \<noteq> pageSize s then limit else pageSize s) \<rparr>"
  let ?branch = "if shouldUseQueryMode s
                 then queryBranch E exec limit page s ?cur
                 else browseBranch exec force limit page s ?cur"
  from assms(1) have ne: "snd (loadDocuments E exec nowCheck nowStore force limit page s) \<noteq> []"
    by auto
  from calls_imply_fetch [OF ne]
  have a: "admitted E s" and n: "cachedEntry E s nowCheck force limit page = None"
    by simp_all
  from assms(1) a n have "c \<in> set (snd ?branch)"
    by (simp add: snd_loadDocuments admitted_def split: if_splits)
  with assms(2) have "fst ?branch = Threw e"
    by (auto dest: queryBranch_rejected browseBranch_rejected split: if_splits)
  then have "fst (loadDocuments E exec nowCheck nowStore force limit page s)
               = ?cur \<lparr> error := Some (errorMessage e), isLoading := False \<rparr>"
    unfolding loadDocuments_fetch [OF a n] by (simp add: Let_def)
  then show ?thesis by (simp add: errorMessage_def)
qed

theorem rejected_call_keeps_results_witness:
  "PageQuery (browseRequest 2 (Some (VArr [VStr (lit ''id''), VStr (lit ''Gt''), VNum 2])))
     \<in> set (snd (loadDocuments exampleEnv failingBackend 9 10 False 2 2 pageOneState))
   \<and> failingBackend (browseRequest 2 (Some (VArr [VStr (lit ''id''), VStr (lit ''Gt''), VNum 2])))
       = Inl (ErrorInstance (lit ''503 Service Unavailable''))
   \<and> documents pageOneState = [exampleRow 1, exampleRow 2]
   \<and> error (fst (loadDocuments exampleEnv failingBackend 9 10 False 2 2 pageOneState))
       = Some (lit ''503 Service Unavailable'')
   \<and> \<not> isLoading (fst (loadDocuments exampleEnv failingBackend 9 10 False 2 2 pageOneState))
   \<and> documents (fst (loadDocuments exampleEnv failingBackend 9 10 False 2 2 pageOneState))
       = [exampleRow 1, exampleRow 2]
   \<and> currentPage (fst (loadDocuments exampleEnv failingBackend 9 10 False 2 2 pageOneState)) = 1"
proof -
  let ?q = "browseRequest 2 (Some (VArr [VStr (lit ''id''), VStr (lit ''Gt''), VNum 2]))"
  have h: "PageQuery ?q
     \<in> set (snd (loadDocuments exampleEnv failingBackend 9 10 False 2 2 pageOneState))"
    by code_simp
  have f: "failingBackend (sent (PageQuery ?q)) = Inl (ErrorInstance (lit ''503 Service Unavailable''))"
    by (simp add: failingBackend_def)
  have f': "failingBackend ?q = Inl (ErrorInstance (lit ''503 Service Unavailable''))"
    by (simp add: failingBackend_def)
  have d: "documents pageOneState = [exampleRow 1, exampleRow 2]" by code_simp
  have p: "currentPage pageOneState = 1" by code_simp
  note t = rejected_call_keeps_results [OF h f]
  from t have "error (fst (loadDocuments exampleEnv failingBackend 9 10 False 2 2 pageOneState))
       = Some (lit ''503 Service Unavailable'')
   \<and> \<not> isLoading (fst (loadDocuments exampleEnv failingBackend 9 10 False 2 2 pageOneState))
   \<and> documents (fst (loadDocuments exampleEnv failingBackend 9 10 False 2 2 pageOneState))
       = documents pageOneState
   \<and> currentPage (fst (loadDocuments exampleEnv failingBackend 9 10 False 2 2 pageOneState))
       = currentPage pageOneState"
    by blast
  then have "error (fst (loadDocuments exampleEnv failingBackend 9 10 False 2 2 pageOneState))
       = Some (lit ''503 Service Unavailable'')
   \<and> \<not> isLoading (fst (loadDocuments exampleEnv failingBackend 9 10 False 2 2 pageOneState))
   \<and> documents (fst (loadDocuments exampleEnv failingBackend 9 10 False 2 2 pageOneState))
       = [exampleRow 1, exampleRow 2]
   \<and> currentPage (fst (loadDocuments exampleEnv failingBackend 9 10 False 2 2 pageOneState)) = 1"
    unfolding d p .
  with h f' d show ?thesis by blast
qed

section \<open>Full-text search without a searchable field\<close>

text \<open>
  C6, as amended. A load that reaches the network in full-text mode with a search text
  that is not blank, no configured BM25 field, no eligible text attribute in the
  registry and no ranking expression in effect sends the count sub-query and nothing
  else: it aborts before the paginated query. When the count sub-query is answered the
  error is the no-searchable-fields message; the rows on display are kept and
  \<^verbatim>\<open>isLoading\<close> is false.
\<close>

theorem no_text_fields_aborts_after_count:
  assumes "admitted E s"
    and "cachedEntry E s nowCheck force limit page = None"
    and "queryMode s = BM25"
    and "trim (searchText s) \<noteq> []"
    and "bm25Fields s = []"
    and "potentialBM25Fields E (attributes s) = []"
    and "\<not> (rankingMode s = Expression \<and> rankingExpression s \<noteq> NullNode)"
  shows "snd (loadDocuments E exec nowCheck nowStore force limit page s)
           = [CountQuery (countRequest (combineFilters (buildFilters E s)))]
    \<and> \<not> isLoading (fst (loadDocuments E exec nowCheck nowStore force limit page s))
    \<and> documents (fst (loadDocuments E exec nowCheck nowStore force limit page s)) = documents s
    \<and> (\<forall>resp. exec (countRequest (combineFilters (buildFilters E s))) = Inr resp \<longrightarrow>
          error (fst (loadDocuments E exec nowCheck nowStore force limit page s))
            = Some noTextFieldsMessage)
    \<and> (\<forall>e. exec (countRequest (combineFilters (buildFilters E s))) = Inl e \<longrightarrow>
          error (fst (loadDocuments E exec nowCheck nowStore force limit page s))
            = Some (errorMessage e))"
proof -
  have q: "shouldUseQueryMode s"
    using assms(4) by (simp add: shouldUseQueryMode_def)
  have d: "determineRankBy E s = None"
    using assms(3-7) by (auto simp: determineRankBy_def)
  show ?thesis
    unfolding loadDocuments_fetch [OF assms(1,2)]
    using q d by (simp add: queryBranch_def Let_def split: sum.splits)
qed

theorem no_text_fields_aborts_after_count_witness:
  "admitted exampleEnv noTextFieldState
   \<and> snd (loadDocuments exampleEnv exampleBackend 0 1 True 2 1 noTextFieldState)
       = [CountQuery (countRequest (combineFilters (buildFilters exampleEnv noTextFieldState)))]
   \<and> \<not> isLoading (fst (loadDocuments exampleEnv exampleBackend 0 1 True 2 1 noTextFieldState))"
proof -
  have a: "admitted exampleEnv noTextFieldState" by code_simp
  have c: "cachedEntry exampleEnv noTextFieldState 0 True 2 1 = None" by code_simp
  have m: "queryMode noTextFieldState = BM25" by code_simp
  have x: "trim (searchText noTextFieldState) \<noteq> []" by code_simp
  have b: "bm25Fields noTextFieldState = []" by code_simp
  have p: "potentialBM25Fields exampleEnv (attributes noTextFieldState) = []" by code_simp
  have e: "\<not> (rankingMode noTextFieldState = Expression
               \<and> rankingExpression noTextFieldState \<noteq> NullNode)" by code_simp
  note t = no_text_fields_aborts_after_count [OF a c m x b p e, of exampleBackend 1]
  from t a show ?thesis by blast
qed

text \<open>
  C6 as stated fails: the load that ends with the no-searchable-fields error has made
  one call, the count sub-query.
\<close>

theorem no_text_fields_counterexample:
  "queryMode noTextFieldState = BM25
   \<and> searchText noTextFieldState = (lit ''hello'')
   \<and> bm25Fields noTextFieldState = []
   \<and> potentialBM25Fields exampleEnv (attributes noTextFieldState) = []
   \<and> snd (loadDocuments exampleEnv exampleBackend 0 1 True 2 1 noTextFieldState)
       = [CountQuery (countRequest None)]
   \<and> error (fst (loadDocuments exampleEnv exampleBackend 0 1 True 2 1 noTextFieldState))
       = Some noTextFieldsMessage"
  by code_simp

section \<open>Result cache\<close>

text \<open>
  C7, as amended. A non-forced load whose cache key has an entry younger than the
  5-minute TTL makes no call and shows the cached rows and total count. When the entry
  is not younger than the TTL it is ignored and the load goes to the network with one
  or two calls: the paginated query alone in browse mode when both totals are known;
  otherwise the count sub-query first, followed by the paginated query when the count
  is answered and the ranking compiles.
\<close>

theorem cache_hit_and_expiry:
  assumes "admitted E s"
    and "map_of (documentsCache s) (cacheKey E s page limit) = Some entry"
  shows "(nowCheck - c_timestamp entry < CACHE_DURATION \<longrightarrow>
            snd (loadDocuments E exec nowCheck nowStore False limit page s) = []
            \<and> documents (fst (loadDocuments E exec nowCheck nowStore False limit page s))
                = c_documents entry
            \<and> totalCount (fst (loadDocuments E exec nowCheck nowStore False limit page s))
                = c_totalCount entry)
    \<and> (\<not> nowCheck - c_timestamp entry < CACHE_DURATION \<longrightarrow>
          cachedEntry E s nowCheck False limit page = None
          \<and> (length (snd (loadDocuments E exec nowCheck nowStore False limit page s)) = 1
               \<or> length (snd (loadDocuments E exec nowCheck nowStore False limit page s)) = 2)
          \<and> (\<not> shouldUseQueryMode s \<and> totalCount s \<noteq> VNull \<and> unfilteredTotalCount s \<noteq> VNull \<longrightarrow>
                snd (loadDocuments E exec nowCheck nowStore False limit page s)
                  = [PageQuery (browseRequest limit (withCursor s page None))])
          \<and> (\<forall>cr. \<not> shouldUseQueryMode s
                \<and> (totalCount s = VNull \<or> unfilteredTotalCount s = VNull)
                \<and> exec (countRequest None) = Inr cr \<longrightarrow>
                snd (loadDocuments E exec nowCheck nowStore False limit page s)
                  = [CountQuery (countRequest None),
                     PageQuery (browseRequest limit (withCursor s page None))])
          \<and> (\<forall>cr rb. shouldUseQueryMode s
                \<and> exec (countRequest (combineFilters (buildFilters E s))) = Inr cr
                \<and> determineRankBy E s = Some rb \<longrightarrow>
                snd (loadDocuments E exec nowCheck nowStore False limit page s)
                  = [CountQuery (countRequest (combineFilters (buildFilters E s))),
                     PageQuery (queryRequest s limit
                                  (withCursor s page (combineFilters (buildFilters E s)))
                                  rb)]))"
proof (cases "nowCheck - c_timestamp entry < CACHE_DURATION")
  case True
  with assms(2) have c: "cachedEntry E s nowCheck False limit page = Some entry"
    by (simp add: cachedEntry_def)
  from loadDocuments_hit [OF assms(1) c, of exec nowStore] True show ?thesis
    by auto
next
  case False
  with assms(2) have c: "cachedEntry E s nowCheck False limit page = None"
    by (simp add: cachedEntry_def)
  have s: "snd (loadDocuments E exec nowCheck nowStore False limit page s) =
     (if shouldUseQueryMode s
      then snd (queryBranch E exec limit page s
                  (s \<lparr> isLoading := True, error := None,
                       pageSize := (if limit \<noteq> pageSize s then limit else pageSize s) \<rparr>))
      else snd (browseBranch exec False limit page s
                  (s \<lparr> isLoading := True, error := None,
                       pageSize := (if limit \<noteq> pageSize s then limit else pageSize s) \<rparr>)))"
    using assms(1) c unfolding snd_loadDocuments by (simp add: admitted_def)
  show ?thesis
    using False c unfolding s snd_queryBranch snd_browseBranch
    by (auto split: sum.splits option.splits)
qed

theorem cache_hit_and_expiry_witness:
  "admitted exampleEnv cachedSearchState
   \<and> cacheKey exampleEnv cachedSearchState 1 2 = lit ''c1:ns-doc-[]-1-2''
   \<and> map_of (documentsCache cachedSearchState) (cacheKey exampleEnv cachedSearchState 1 2)
       = Some \<lparr> c_documents = [exampleRow 1], c_totalCount = VNum 1, c_timestamp = 0 \<rparr>
   \<and> (1000::int) - 0 < CACHE_DURATION
   \<and> snd (loadDocuments exampleEnv exampleBackend 1000 1001 False 2 1 cachedSearchState) = []
   \<and> documents (fst (loadDocuments exampleEnv exampleBackend 1000 1001 False 2 1 cachedSearchState))
       = [exampleRow 1]
   \<and> totalCount (fst (loadDocuments exampleEnv exampleBackend 1000 1001 False 2 1 cachedSearchState))
       = VNum 1"
proof -
  let ?e = "\<lparr> c_documents = [exampleRow 1], c_totalCount = VNum 1, c_timestamp = 0 \<rparr>"
  have a: "admitted exampleEnv cachedSearchState" by code_simp
  have k: "cacheKey exampleEnv cachedSearchState 1 2 = lit ''c1:ns-doc-[]-1-2''" by code_simp
  have m: "map_of (documentsCache cachedSearchState) (cacheKey exampleEnv cachedSearchState 1 2)
       = Some ?e" by code_simp
  have y: "1000 - c_timestamp ?e < CACHE_DURATION" by code_simp
  have y': "(1000::int) - 0 < CACHE_DURATION" by code_simp
  have v: "c_documents ?e = [exampleRow 1] \<and> c_totalCount ?e = VNum 1" by simp
  note t = cache_hit_and_expiry [OF a m, of 1000 exampleBackend 1001]
  from t y have "snd (loadDocuments exampleEnv exampleBackend 1000 1001 False 2 1 cachedSearchState) = []
   \<and> documents (fst (loadDocuments exampleEnv exampleBackend 1000 1001 False 2 1 cachedSearchState))
       = c_documents ?e
   \<and> totalCount (fst (loadDocuments exampleEnv exampleBackend 1000 1001 False 2 1 cachedSearchState))
       = c_totalCount ?e"
    by blast
  with v have "snd (loadDocuments exampleEnv exampleBackend 1000 1001 False 2 1 cachedSearchState) = []
   \<and> documents (fst (loadDocuments exampleEnv exampleBackend 1000 1001 False 2 1 cachedSearchState))
       = [exampleRow 1]
   \<and> totalCount (fst (loadDocuments exampleEnv exampleBackend 1000 1001 False 2 1 cachedSearchState))
       = VNum 1"
    by simp
  with a k m y' show ?thesis by blast
qed

text \<open>
  C7 as stated fails on the number of calls: the entry of \<open>cachedSearchState\<close>, written
  at time 0 under the key of its first page of two rows, has expired at time 400000, and
  the non-forced load of that page makes two calls, the count sub-query and the paginated
  query.
\<close>

theorem expired_entry_two_calls_counterexample:
  "cacheKey exampleEnv cachedSearchState 1 2 = lit ''c1:ns-doc-[]-1-2''
   \<and> map_of (documentsCache cachedSearchState) (cacheKey exampleEnv cachedSearchState 1 2)
     = Some \<lparr> c_documents = [exampleRow 1], c_totalCount = VNum 1, c_timestamp = 0 \<rparr>
   \<and> \<not> ((400000::int) - 0 < CACHE_DURATION)
   \<and> snd (loadDocuments exampleEnv exampleBackend 400000 400001 False 2 1 cachedSearchState)
     = [CountQuery (countRequest (Some (VArr [VStr (lit ''id''), VStr (lit ''Glob''),
                                              VStr (lit ''*doc*'')]))),
        PageQuery \<lparr> filters = Some (VArr [VStr (lit ''id''), VStr (lit ''Glob''),
                                           VStr (lit ''*doc*'')]),
                    rank_by = Some (VArr [VStr (lit ''id''), VStr (lit ''asc'')]),
                    top_k = Some 2, include_attributes = Some True, aggregate_by = None,
                    group_by = None \<rparr>]"
  by code_simp

section \<open>Forward, then backward\<close>

text \<open>
  C5, as amended. Let page 1 be fetched from the backend with success from a state whose
  current page is at least 1, then page 2 be loaded, then page 1 again, with a fixed
  query configuration, a backend that answers every request as a function of the request,
  and an attribute registry that, as re-discovered from the loaded rows, compiles the
  same filters and ranking. The third load shows exactly the rows of the first fetch.
  When it reaches the backend (it is forced, or the cache holds no fresh entry) it sends
  the paginated request of the first fetch, which has no cursor predicate, and leaves
  \<^verbatim>\<open>previousCursors\<close> empty; when it is served from the cache it sends no request.
\<close>

theorem forward_then_backward:
  assumes a0: "admitted E s0" and p0: "1 \<le> currentPage s0"
    and ex: "\<forall>q. \<exists>resp. exec q = Inr resp"
    and n1: "cachedEntry E s0 a1 f1 limit 1 = None"
    and s1: "s1 = fst (loadDocuments E exec a1 b1 f1 limit 1 s0)"
    and e1: "error s1 = None"
    and s2: "s2 = fst (loadDocuments E exec a2 b2 f2 limit 2 s1)"
    and rf: "buildFilters E s2 = buildFilters E s0"
    and rr: "determineRankBy E s2 = determineRankBy E s0"
  shows "documents (fst (loadDocuments E exec a3 b3 f3 limit 1 s2)) = documents s1
    \<and> (cachedEntry E s2 a3 f3 limit 1 = None \<longrightarrow>
          previousCursors (fst (loadDocuments E exec a3 b3 f3 limit 1 s2)) = []
          \<and> (\<exists>q. PageQuery q \<in> set (snd (loadDocuments E exec a3 b3 f3 limit 1 s2))
                \<and> PageQuery q \<in> set (snd (loadDocuments E exec a1 b1 f1 limit 1 s0))
                \<and> filters q = (if shouldUseQueryMode s0
                                then combineFilters (buildFilters E s0) else None)))
    \<and> (cachedEntry E s2 a3 f3 limit 1 \<noteq> None \<longrightarrow>
          snd (loadDocuments E exec a3 b3 f3 limit 1 s2) = [])"
proof -
  let ?cur0 = "s0 \<lparr> isLoading := True, error := None,
                    pageSize := (if limit \<noteq> pageSize s0 then limit else pageSize s0) \<rparr>"
  let ?branch0 = "if shouldUseQueryMode s0
                  then queryBranch E exec limit 1 s0 ?cur0
                  else browseBranch exec f1 limit 1 s0 ?cur0"
  let ?cur2 = "s2 \<lparr> isLoading := True, error := None,
                    pageSize := (if limit \<noteq> pageSize s2 then limit else pageSize s2) \<rparr>"
  let ?branch2 = "if shouldUseQueryMode s2
                  then queryBranch E exec limit 1 s2 ?cur2
                  else browseBranch exec f3 limit 1 s2 ?cur2"
  from e1 have e1': "error (fst (loadDocuments E exec a1 b1 f1 limit 1 s0)) = None"
    unfolding s1 .
  from fetch_success_Loaded [OF a0 n1 e1'] obtain st docs tc where
    l0: "fst ?branch0 = Loaded st docs tc" by blast
  from fetch_Loaded [OF a0 n1 l0, of b1] obtain en1 where
    d1: "documents s1 = docs" and c1: "currentPage s1 = 1"
    and m1: "map_of (documentsCache s1) (cacheKey E s0 1 limit) = Some en1"
    and k1: "c_documents en1 = docs"
    unfolding s1 by blast
  from branch_Loaded_elim [OF l0] obtain q res where
    pr0: "pageRequest E s0 limit 1 = Some q" and er: "exec q = Inr res"
    and dr: "docs = rowsOf res"
    and pa: "shouldUseQueryMode s0 \<longrightarrow> parseAggregations (aggregations_of res) \<noteq> None"
    and pq0: "PageQuery q \<in> set (snd ?branch0)" by blast
  have "snd (loadDocuments E exec a1 b1 f1 limit 1 s0) = snd ?branch0"
    using a0 n1 unfolding snd_loadDocuments by (simp add: admitted_def)
  with pq0 have pq1: "PageQuery q \<in> set (snd (loadDocuments E exec a1 b1 f1 limit 1 s0))"
    by simp
  have c01: "sameConfig s0 s1" unfolding s1 by (rule load_sameConfig)
  have c12: "sameConfig s1 s2" unfolding s2 by (rule load_sameConfig)
  have c02: "sameConfig s0 s2" by (rule sameConfig_trans [OF c01 c12])
  have ad1: "admitted E s1" unfolding s1 by (rule load_admitted [OF a0])
  have ad2: "admitted E s2" unfolding s2 by (rule load_admitted [OF ad1])
  have "currentPage s2 = currentPage s1 \<or> currentPage s2 = 2"
    unfolding s2 using load_bookkeeping [of E exec a2 b2 f2 limit 2 s1] by blast
  with c1 have p2: "1 \<le> currentPage s2" by auto
  have pr2: "pageRequest E s2 limit 1 = Some q"
    using pageRequest_first [OF c02 p0 p2 rf rr] pr0 by simp
  have fq: "filters q = (if shouldUseQueryMode s0 then combineFilters (buildFilters E s0) else None)"
    by (rule pageRequest_first_filters [OF pr0 p0])
  show ?thesis
  proof (cases "cachedEntry E s2 a3 f3 limit 1")
    case None
    from pa sameConfig_shouldUseQueryMode [OF c02]
    have pa2: "shouldUseQueryMode s2 \<longrightarrow> parseAggregations (aggregations_of res) \<noteq> None"
      by simp
    from branch_Loaded_intro [OF pr2 er pa2 ex, of ?cur2 f3] obtain st3 tc3 where
      l3: "fst ?branch2 = Loaded st3 (rowsOf res) tc3"
      and pq2: "PageQuery q \<in> set (snd ?branch2)" by blast
    from fetch_Loaded [OF ad2 None l3, of b3]
    have d3: "documents (fst (loadDocuments E exec a3 b3 f3 limit 1 s2)) = rowsOf res"
      and v3: "previousCursors (fst (loadDocuments E exec a3 b3 f3 limit 1 s2))
                 = previousCursors (updatePagination 1 (rowsOf res) s2)"
      by blast+
    from p2 have "previousCursors (updatePagination 1 (rowsOf res) s2) = []"
      by (simp add: updatePagination_def Let_def)
    with v3 have v: "previousCursors (fst (loadDocuments E exec a3 b3 f3 limit 1 s2)) = []"
      by simp
    have "snd (loadDocuments E exec a3 b3 f3 limit 1 s2) = snd ?branch2"
      using ad2 None unfolding snd_loadDocuments by (simp add: admitted_def)
    with pq2 have pq3: "PageQuery q \<in> set (snd (loadDocuments E exec a3 b3 f3 limit 1 s2))"
      by simp
    from d3 d1 dr have "documents (fst (loadDocuments E exec a3 b3 f3 limit 1 s2)) = documents s1"
      by simp
    with None v pq3 pq1 fq show ?thesis by blast
  next
    case (Some en)
    from cache_hit [OF ad2 Some, of exec b3]
    have d3: "documents (fst (loadDocuments E exec a3 b3 f3 limit 1 s2)) = c_documents en"
      and t3: "snd (loadDocuments E exec a3 b3 f3 limit 1 s2) = []"
      and m3: "map_of (documentsCache s2) (cacheKey E s2 1 limit) = Some en"
      by blast+
    have ky: "cacheKey E s2 1 limit = cacheKey E s0 1 limit"
      by (rule sameConfig_cacheKey [OF c02])
    have "cacheKey E s0 1 limit \<noteq> cacheKey E s0 2 limit" by (rule cacheKey_pages_differ)
    then have ne: "cacheKey E s0 1 limit \<noteq> cacheKey E s1 2 limit"
      unfolding sameConfig_cacheKey [OF c01] .
    from load_bookkeeping [of E exec a2 b2 f2 limit 2 s1] ne
    have "map_of (documentsCache s2) (cacheKey E s0 1 limit)
            = map_of (documentsCache s1) (cacheKey E s0 1 limit)"
      unfolding s2 by blast
    with m3 m1 ky have "en = en1" by simp
    with d3 k1 d1 have "documents (fst (loadDocuments E exec a3 b3 f3 limit 1 s2)) = documents s1"
      by simp
    with Some t3 show ?thesis by simp
  qed
qed

theorem forward_then_backward_witness:
  "admitted exampleEnv readyState
   \<and> documents pageOneState = [exampleRow 1, exampleRow 2]
   \<and> documents pageTwoState = [exampleRow 3]
   \<and> previousCursors pageTwoState = [VNum 1]
   \<and> documents (fst (loadDocuments exampleEnv exampleBackend 20 21 True 2 1 pageTwoState))
       = documents pageOneState
   \<and> previousCursors (fst (loadDocuments exampleEnv exampleBackend 20 21 True 2 1 pageTwoState))
       = []"
proof -
  have a0: "admitted exampleEnv readyState" by code_simp
  have p0: "1 \<le> currentPage readyState" by code_simp
  have ex: "\<forall>q. \<exists>resp. exampleBackend q = Inr resp"
    by (simp add: exampleBackend_def)
  have n1: "cachedEntry exampleEnv readyState 0 True 2 1 = None" by code_simp
  have s1: "pageOneState = fst (loadDocuments exampleEnv exampleBackend 0 1 True 2 1 readyState)"
    by (simp add: pageOneState_def)
  have e1: "error pageOneState = None" by code_simp
  have s2: "pageTwoState = fst (loadDocuments exampleEnv exampleBackend 10 11 True 2 2 pageOneState)"
    by (simp add: pageTwoState_def)
  have rf: "buildFilters exampleEnv pageTwoState = buildFilters exampleEnv readyState"
    by code_simp
  have rr: "determineRankBy exampleEnv pageTwoState = determineRankBy exampleEnv readyState" by code_simp
  have n3: "cachedEntry exampleEnv pageTwoState 20 True 2 1 = None" by code_simp
  have d1: "documents pageOneState = [exampleRow 1, exampleRow 2]" by code_simp
  have d2: "documents pageTwoState = [exampleRow 3]" by code_simp
  have c2: "previousCursors pageTwoState = [VNum 1]" by code_simp
  note t = forward_then_backward [OF a0 p0 ex n1 s1 e1 s2 rf rr, of 20 21 True]
  from t n3 have
    "documents (fst (loadDocuments exampleEnv exampleBackend 20 21 True 2 1 pageTwoState))
       = documents pageOneState
     \<and> previousCursors (fst (loadDocuments exampleEnv exampleBackend 20 21 True 2 1 pageTwoState))
       = []"
    by blast
  with a0 d1 d2 c2 show ?thesis by blast
qed

text \<open>
  C5 as stated fails in two ways. When the pages are loaded without force, as the page
  buttons load them, the return to page 1 within the TTL is served from the cache: no
  page-1 request is sent, and \<^verbatim>\<open>previousCursors\<close> still holds the key pushed on the way
  forward. And when the registry re-discovered from the loaded rows compiles the fixed
  configuration to another request, the return to page 1 shows other rows although the
  backend answers every request as before: the full-text search of \<open>bodySearchState\<close>
  ranks by the attribute \<^verbatim>\<open>body\<close> of the registry at first and by the attribute
  \<^verbatim>\<open>title\<close> of the rows afterwards, and the predicate on \<^verbatim>\<open>tags\<close> of \<open>filteredState\<close>
  compiles to \<^verbatim>\<open>ContainsAny\<close> at first and to \<^verbatim>\<open>Eq\<close> once the registry holds no array
  attribute \<^verbatim>\<open>tags\<close>.
\<close>

theorem cached_return_counterexample:
  "currentPage browsedPageTwoState = 2
   \<and> previousCursors browsedPageTwoState = [VNum 1]
   \<and> snd (loadDocuments exampleEnv exampleBackend 20 21 False 2 1 browsedPageTwoState) = []
   \<and> currentPage (fst (loadDocuments exampleEnv exampleBackend 20 21 False 2 1
                         browsedPageTwoState)) = 1
   \<and> previousCursors (fst (loadDocuments exampleEnv exampleBackend 20 21 False 2 1
                             browsedPageTwoState)) = [VNum 1]
   \<and> forwardThenBackward rankedBackend bodySearchState
       = ([exampleRow 1, exampleRow 2], [exampleRow 3, exampleRow 1])
   \<and> forwardThenBackward taggedBackend filteredState
       = ([exampleRow 1, exampleRow 2], [])"
  by code_simp

end
